theory Spec2Isabelle
  imports Main "HOL-Library.Sublist" "HOL-Library.Word" "HOL-Library.Numeral_Type"
begin

section \<open>Common vocabulary\<close>

text \<open>
  JavaScript strings are modelled as \<^typ>\<open>string\<close> (the bytes of their UTF-8 form),
  JavaScript numbers that hold ranks, counts and identifiers as \<^typ>\<open>int\<close>, and
  \<open>Date\<close> values as their epoch milliseconds. Every \<open>throw new Error(...)\<close> of the
  source is a constructor of \<open>error\<close>, named after its message.
\<close>

datatype error =
    MarketNotFound int
  | NoSnapshotFound string string
  | NetworkFailure string
  | FetchFailed string int string
  | HashVerificationFailed string string string
  | JsonSyntaxError
  | TypeError
  | InvalidSnapshotSchema
  | ResolutionNotPrepared int
  | ResolutionNotCommitted int
  | MissingSnapshotEvidence int
  | DisputeWindowActive int
  | EncodingError
  | ChainError string
  | DbOutOfRange

section \<open>lib/rank.ts\<close>

record SnapshotItem =
  rank :: int
  title :: string
  artist :: string
  streams :: int
  trackId :: string
  spotifyUrl :: string

record SpotifySnapshot =
  schema :: string
  dateUTC :: string
  chartRegion :: string
  provider :: string
  listLength :: int
  items :: "SnapshotItem list"

text \<open>
  \<open>s.replace(pat, '')\<close> with a string pattern: the first occurrence of \<open>pat\<close> in
  \<open>s\<close>, wherever it starts, is removed; a string without an occurrence is unchanged.
\<close>

fun replaceFirst :: "string \<Rightarrow> string \<Rightarrow> string" where
  "replaceFirst pat [] = []"
| "replaceFirst pat (c # cs) =
     (if prefix pat (c # cs) then drop (length pat) (c # cs)
      else c # replaceFirst pat cs)"

definition trackPrefix :: string where
  "trackPrefix = ''spotify:track:''"

text \<open>The \<open>for (const item of snapshot.items)\<close> loop with its early return.\<close>

fun findRank :: "string \<Rightarrow> SnapshotItem list \<Rightarrow> int" where
  "findRank cleanSongId [] = 101"
| "findRank cleanSongId (item # rest) =
     (if replaceFirst trackPrefix (trackId item) = cleanSongId then rank item
      else findRank cleanSongId rest)"

definition extractRankBySongId :: "SpotifySnapshot \<Rightarrow> string \<Rightarrow> int" where
  "extractRankBySongId snapshot songId =
     findRank (replaceFirst trackPrefix songId) (items snapshot)"

definition YES :: int where "YES = 1"
definition NO :: int where "NO = 2"

definition computeOutcome :: "int \<Rightarrow> int \<Rightarrow> int" where
  "computeOutcome t0Rank t1Rank = (if t1Rank < t0Rank then 1 else 2)"





section \<open>lib/hash.ts\<close>

text \<open>
  \<open>toLowerCase\<close> on the ASCII range, which is all that a comparison against a
  hexadecimal digest can observe.
\<close>

definition lowerChar :: "char \<Rightarrow> char" where
  "lowerChar c =
     (case map_of (zip ''ABCDEFGHIJKLMNOPQRSTUVWXYZ'' ''abcdefghijklmnopqrstuvwxyz'') c of
        Some l \<Rightarrow> l
      | None \<Rightarrow> c)"

definition toLowerCase :: "string \<Rightarrow> string" where
  "toLowerCase s = map lowerChar s"

text \<open>
  Node's \<open>crypto.createHash('sha256').update(input).digest('hex')\<close> is outside the
  repository; it enters as the parameter \<open>digestHex\<close>.
\<close>

definition sha256 :: "(string \<Rightarrow> string) \<Rightarrow> string \<Rightarrow> string" where
  "sha256 digestHex input = ''0x'' @ digestHex input"

definition verifyHash :: "(string \<Rightarrow> string) \<Rightarrow> string \<Rightarrow> string \<Rightarrow> bool" where
  "verifyHash digestHex data expectedHash =
     (toLowerCase (sha256 digestHex data) = toLowerCase expectedHash)"

record Response =
  ok :: bool
  status :: int
  statusText :: string
  arrayBuffer :: string

text \<open>
  \<open>fetch\<close> either rejects (a network failure, \<open>Inl\<close> with its message) or resolves
  to a response.
\<close>

definition fetchAndVerifyHash ::
  "(string \<Rightarrow> string) \<Rightarrow> (string \<Rightarrow> string + Response) \<Rightarrow> string \<Rightarrow> string \<Rightarrow> error + string"
where
  "fetchAndVerifyHash digestHex fetch url expectedHash =
     (case fetch url of
        Inl message \<Rightarrow> Inl (NetworkFailure message)
      | Inr response \<Rightarrow>
          if \<not> ok response then Inl (FetchFailed url (status response) (statusText response))
          else
            let buffer = arrayBuffer response in
            if \<not> verifyHash digestHex buffer expectedHash
            then Inl (HashVerificationFailed url expectedHash (sha256 digestHex buffer))
            else Inr buffer)"

text \<open>
  One point of Node's digest (the unit tests' known hash of \<open>hello world\<close>), the same
  digest spelled without its \<open>0x\<close>, and a fetch that serves that document.
\<close>

definition helloDigest :: "string \<Rightarrow> string" where
  "helloDigest input =
     (if input = ''hello world''
      then ''b94d27b9934d3e08a52e52d7da7dabfac484efe37a5380ee9088f7ace2efcde9''
      else '''')"

definition bareHelloHash :: string where
  "bareHelloHash = ''B94D27B9934D3E08A52E52D7DA7DABFAC484EFE37A5380EE9088F7ACE2EFCDE9''"

definition helloFetch :: "string \<Rightarrow> string + Response" where
  "helloFetch url = Inr \<lparr>ok = True, status = 200, statusText = ''OK'', arrayBuffer = ''hello world''\<rparr>"

section \<open>chain/viem.ts: the commitment\<close>

type_synonym byte = "8 word"

record Evidence =
  evCsvUrl :: string
  evCsvSha256 :: string
  evJsonUrl :: string
  evJsonSha256 :: string
  evIpfsCid :: string

text \<open>
  \<open>encodePacked\<close> and \<open>keccak256\<close> come from the viem library, which is outside the
  repository. \<open>encodePacked\<close> is modelled after the library function, for the three kinds
  of type that \<open>computeCommitment\<close> names. Every value becomes a hexadecimal text:
  \<open>uintN\<close> through \<open>numberToHex\<close>, the number in \<open>N div 4\<close> lower-case digits after
  \<open>0x\<close> (a number outside \<open>0 ..< 2 ^ N\<close> is refused); \<open>string\<close> through
  \<open>stringToHex\<close>, two digits for each byte of the text after \<open>0x\<close>, with no length
  and no delimiter; \<open>bytesN\<close> is the given text as it is, refused only when its length
  is not \<open>2 + 2 * N\<close>: neither its first two characters nor its digits are looked at.
  \<open>concatHex\<close> joins the texts: it removes from each one the first occurrence of
  \<open>0x\<close>, wherever it starts (\<open>x.replace('0x', '')\<close>), and puts one \<open>0x\<close> in front.
  \<open>keccak256\<close> enters as a parameter, applied to the packed text; it is \<open>None\<close>
  where it throws.
\<close>

datatype abiType = Uint nat | Bytes nat | String

datatype abiValue = Num int | Hex string | Str string

fun beBytes :: "nat \<Rightarrow> nat \<Rightarrow> byte list" where
  "beBytes 0 v = []"
| "beBytes (Suc k) v = beBytes k (v div 256) @ [of_nat (v mod 256)]"

definition hexChar :: "nat \<Rightarrow> char" where
  "hexChar n = ''0123456789abcdef'' ! n"

definition byteToHex :: "byte \<Rightarrow> string" where
  "byteToHex b = [hexChar (unat b div 16), hexChar (unat b mod 16)]"

definition bytesToHex :: "byte list \<Rightarrow> string" where
  "bytesToHex bs = ''0x'' @ concat (map byteToHex bs)"

definition stringToBytes :: "string \<Rightarrow> byte list" where
  "stringToBytes s = map (\<lambda>c. of_nat (of_char c)) s"

fun encode :: "abiType \<Rightarrow> abiValue \<Rightarrow> error + string" where
  "encode (Uint bits) (Num v) =
     (if 0 \<le> v \<and> v < 2 ^ bits then Inr (bytesToHex (beBytes (bits div 8) (nat v)))
      else Inl EncodingError)"
| "encode (Bytes n) (Hex h) =
     (if length h \<noteq> 2 + 2 * n then Inl EncodingError else Inr h)"
| "encode String (Str s) = Inr (bytesToHex (stringToBytes s))"
| "encode _ _ = Inl EncodingError"

text \<open>The loop of \<open>encodePacked\<close> that collects one text for each value.\<close>

fun encodeEach :: "abiType list \<Rightarrow> abiValue list \<Rightarrow> error + string list" where
  "encodeEach [] [] = Inr []"
| "encodeEach (t # ts) (v # vs) =
     (case encode t v of
        Inl e \<Rightarrow> Inl e
      | Inr x \<Rightarrow>
          (case encodeEach ts vs of
             Inl e \<Rightarrow> Inl e
           | Inr xs \<Rightarrow> Inr (x # xs)))"
| "encodeEach _ _ = Inl EncodingError"

definition concatHex :: "string list \<Rightarrow> string" where
  "concatHex xs = ''0x'' @ concat (map (replaceFirst ''0x'') xs)"

definition encodePacked :: "abiType list \<Rightarrow> abiValue list \<Rightarrow> error + string" where
  "encodePacked ts vs =
     (case encodeEach ts vs of
        Inl e \<Rightarrow> Inl e
      | Inr data \<Rightarrow> Inr (concatHex data))"

definition commitmentTypes :: "abiType list" where
  "commitmentTypes =
     [Uint 256, Uint 16, Uint 16, Uint 8,
      String, Bytes 32, String, Bytes 32, String,
      String, Bytes 32, String, Bytes 32, String,
      Uint 256]"

definition commitmentValues ::
  "int \<Rightarrow> int \<Rightarrow> int \<Rightarrow> int \<Rightarrow> Evidence \<Rightarrow> Evidence \<Rightarrow> int \<Rightarrow> abiValue list"
where
  "commitmentValues marketId t0Rank t1Rank outcome t0Evidence t1Evidence nonce =
     [Num marketId, Num t0Rank, Num t1Rank, Num outcome,
      Str (evCsvUrl t0Evidence), Hex (evCsvSha256 t0Evidence),
      Str (evJsonUrl t0Evidence), Hex (evJsonSha256 t0Evidence),
      Str (evIpfsCid t0Evidence),
      Str (evCsvUrl t1Evidence), Hex (evCsvSha256 t1Evidence),
      Str (evJsonUrl t1Evidence), Hex (evJsonSha256 t1Evidence),
      Str (evIpfsCid t1Evidence),
      Num nonce]"

definition packCommitment ::
  "int \<Rightarrow> int \<Rightarrow> int \<Rightarrow> int \<Rightarrow> Evidence \<Rightarrow> Evidence \<Rightarrow> int \<Rightarrow> error + string"
where
  "packCommitment marketId t0Rank t1Rank outcome t0Evidence t1Evidence nonce =
     encodePacked commitmentTypes
       (commitmentValues marketId t0Rank t1Rank outcome t0Evidence t1Evidence nonce)"

definition computeCommitment ::
  "(string \<Rightarrow> 256 word option) \<Rightarrow>
   int \<Rightarrow> int \<Rightarrow> int \<Rightarrow> int \<Rightarrow> Evidence \<Rightarrow> Evidence \<Rightarrow> int \<Rightarrow> error + 256 word"
where
  "computeCommitment keccak256 marketId t0Rank t1Rank outcome t0Evidence t1Evidence nonce =
     (case packCommitment marketId t0Rank t1Rank outcome t0Evidence t1Evidence nonce of
        Inl e \<Rightarrow> Inl e
      | Inr packed \<Rightarrow>
          (case keccak256 packed of
             None \<Rightarrow> Inl EncodingError
           | Some digest \<Rightarrow> Inr digest))"

text \<open>
  Two values of one field are the same input when they are equal. Two hash texts are the
  same input when they spell the same digits: what is left of them once the first \<open>0x\<close>
  is removed is equal up to the case of the letters.
\<close>

fun sameValue :: "abiValue \<Rightarrow> abiValue \<Rightarrow> bool" where
  "sameValue (Hex a) (Hex b) =
     (toLowerCase (replaceFirst ''0x'' a) = toLowerCase (replaceFirst ''0x'' b))"
| "sameValue v w = (v = w)"

text \<open>
  \<open>keccak256\<close> reads the packed text as hexadecimal digits, so that two texts which differ
  only in the case of their letters are one byte sequence. A collision is a pair of packed
  texts that differ in more than that and have the same digest.
\<close>

definition collision :: "(string \<Rightarrow> 256 word option) \<Rightarrow> string \<Rightarrow> string \<Rightarrow> bool" where
  "collision keccak256 p q = (toLowerCase p \<noteq> toLowerCase q \<and> keccak256 p = keccak256 q)"

definition zeroHash :: string where
  "zeroHash = ''0x0000000000000000000000000000000000000000000000000000000000000000''"

text \<open>Sample evidence tuples, in the shape the jobs build them.\<close>

definition helloHash :: string where
  "helloHash = ''0xb94d27b9934d3e08a52e52d7da7dabfac484efe37a5380ee9088f7ace2efcde9''"

definition sampleT0 :: Evidence where
  "sampleT0 =
     \<lparr>evCsvUrl = '''', evCsvSha256 = zeroHash,
      evJsonUrl = ''https://charts.example/t0.json'', evJsonSha256 = helloHash,
      evIpfsCid = ''Qm''\<rparr>"

definition sampleT1 :: Evidence where
  "sampleT1 =
     \<lparr>evCsvUrl = '''', evCsvSha256 = zeroHash,
      evJsonUrl = ''https://charts.example/t1.json'', evJsonSha256 = helloHash,
      evIpfsCid = ''''\<rparr>"

text \<open>
  Two texts of 66 characters for one hash field: one with \<open>0x\<close> in front, one with
  \<open>0x\<close> after its first digit.
\<close>

definition frontHash :: string where
  "frontHash = ''0xa000000000000000000000000000000000000000000000000000000000000000''"

definition innerHash :: string where
  "innerHash = ''a0x000000000000000000000000000000000000000000000000000000000000000''"

text \<open>
  The packed texts of the sample inputs, one field after the other: market, the two ranks,
  the outcome, the t0 tuple, the t1 tuple and the nonce (the empty strings leave nothing).
  \<open>samplePacked\<close> is that of the sample evidence as it is, \<open>frontPacked\<close> that of
  the sample evidence with \<open>frontHash\<close> as its t0 CSV hash.
\<close>

definition samplePacked :: string where
  "samplePacked =
        ''0x''
      @ ''0000000000000000000000000000000000000000000000000000000000000001''
      @ ''000c''
      @ ''0008''
      @ ''01''
      @ ''0000000000000000000000000000000000000000000000000000000000000000''
      @ ''68747470733a2f2f6368617274732e6578616d706c652f74302e6a736f6e''
      @ ''b94d27b9934d3e08a52e52d7da7dabfac484efe37a5380ee9088f7ace2efcde9''
      @ ''516d''
      @ ''0000000000000000000000000000000000000000000000000000000000000000''
      @ ''68747470733a2f2f6368617274732e6578616d706c652f74312e6a736f6e''
      @ ''b94d27b9934d3e08a52e52d7da7dabfac484efe37a5380ee9088f7ace2efcde9''
      @ ''0000000000000000000000000000000000000000000000000000000000000000''"

definition frontPacked :: string where
  "frontPacked =
        ''0x''
      @ ''0000000000000000000000000000000000000000000000000000000000000001''
      @ ''000c''
      @ ''0008''
      @ ''01''
      @ ''a000000000000000000000000000000000000000000000000000000000000000''
      @ ''68747470733a2f2f6368617274732e6578616d706c652f74302e6a736f6e''
      @ ''b94d27b9934d3e08a52e52d7da7dabfac484efe37a5380ee9088f7ace2efcde9''
      @ ''516d''
      @ ''0000000000000000000000000000000000000000000000000000000000000000''
      @ ''68747470733a2f2f6368617274732e6578616d706c652f74312e6a736f6e''
      @ ''b94d27b9934d3e08a52e52d7da7dabfac484efe37a5380ee9088f7ace2efcde9''
      @ ''0000000000000000000000000000000000000000000000000000000000000000''"

section \<open>Parsed documents and the schema guard of lib/rank.ts\<close>

text \<open>
  What \<open>JSON.parse\<close> returns. Reading a property of \<open>null\<close> throws a \<open>TypeError\<close>;
  a property that an object does not have, and every property read below of a value that is
  not an object, is \<open>undefined\<close>.
\<close>

datatype json =
    JNull
  | JBool bool
  | JNum int
  | JStr string
  | JArr "json list"
  | JObj "(string \<times> json) list"

fun isNumber :: "json option \<Rightarrow> bool" where
  "isNumber (Some (JNum n)) = True"
| "isNumber _ = False"

fun isString :: "json option \<Rightarrow> bool" where
  "isString (Some (JStr s)) = True"
| "isString _ = False"

fun itemValid :: "json \<Rightarrow> error + bool" where
  "itemValid JNull = Inl TypeError"
| "itemValid (JObj f) =
     Inr (isNumber (map_of f ''rank'') \<and> isString (map_of f ''title'')
          \<and> isString (map_of f ''artist'') \<and> isNumber (map_of f ''streams'')
          \<and> isString (map_of f ''trackId'') \<and> isString (map_of f ''spotifyUrl''))"
| "itemValid _ = Inr False"

text \<open>\<open>Array.prototype.every\<close>: it stops at the first item that fails or throws.\<close>

fun everyItem :: "json list \<Rightarrow> error + bool" where
  "everyItem [] = Inr True"
| "everyItem (x # xs) =
     (case itemValid x of
        Inl e \<Rightarrow> Inl e
      | Inr valid \<Rightarrow> if valid then everyItem xs else Inr False)"

fun validateSnapshotSchema :: "json \<Rightarrow> error + bool" where
  "validateSnapshotSchema JNull = Inl TypeError"
| "validateSnapshotSchema (JObj f) =
     (if map_of f ''schema'' = Some (JStr ''hitcastor.spotify.top100.v1'')
         \<and> isString (map_of f ''dateUTC'') \<and> isString (map_of f ''region'')
         \<and> isString (map_of f ''provider'') \<and> isNumber (map_of f ''listLength'')
      then (case map_of f ''items'' of
              Some (JArr xs) \<Rightarrow> everyItem xs
            | _ \<Rightarrow> Inr False)
      else Inr False)"
| "validateSnapshotSchema _ = Inr False"

text \<open>
  The guard narrows the parsed value to \<open>SpotifySnapshot\<close>; \<open>asSnapshot\<close> is that view
  of it, defined where the value has the fields the interface names.
\<close>

fun numberOf :: "json option \<Rightarrow> int option" where
  "numberOf (Some (JNum n)) = Some n"
| "numberOf _ = None"

fun stringOf :: "json option \<Rightarrow> string option" where
  "stringOf (Some (JStr s)) = Some s"
| "stringOf _ = None"

fun asItem :: "json \<Rightarrow> SnapshotItem option" where
  "asItem (JObj f) =
     (case (numberOf (map_of f ''rank''), stringOf (map_of f ''title''),
            stringOf (map_of f ''artist''), numberOf (map_of f ''streams''),
            stringOf (map_of f ''trackId''), stringOf (map_of f ''spotifyUrl'')) of
        (Some r, Some t, Some a, Some n, Some i, Some u) \<Rightarrow>
          Some \<lparr>rank = r, title = t, artist = a, streams = n, trackId = i, spotifyUrl = u\<rparr>
      | _ \<Rightarrow> None)"
| "asItem _ = None"

fun asItems :: "json list \<Rightarrow> SnapshotItem list option" where
  "asItems [] = Some []"
| "asItems (x # xs) =
     (case (asItem x, asItems xs) of
        (Some item, Some rest) \<Rightarrow> Some (item # rest)
      | _ \<Rightarrow> None)"

fun asSnapshot :: "json \<Rightarrow> SpotifySnapshot option" where
  "asSnapshot (JObj f) =
     (case (stringOf (map_of f ''schema''), stringOf (map_of f ''dateUTC''),
            stringOf (map_of f ''region''), stringOf (map_of f ''provider''),
            numberOf (map_of f ''listLength''), map_of f ''items'') of
        (Some s, Some d, Some r, Some p, Some n, Some (JArr xs)) \<Rightarrow>
          (case asItems xs of
             Some its \<Rightarrow>
               Some \<lparr>schema = s, dateUTC = d, chartRegion = r, provider = p,
                     listLength = n, items = its\<rparr>
           | None \<Rightarrow> None)
      | _ \<Rightarrow> None)"
| "asSnapshot _ = None"

section \<open>db/index.ts\<close>

text \<open>
  The rows as the interfaces of \<open>db/index.ts\<close> and the tables of \<open>001_init.sql\<close>
  declare them. Market and snapshot keys are \<open>BIGINT\<close> columns (\<^typ>\<open>int\<close>), nullable
  columns are options, timestamps are epoch milliseconds. A field name that several
  interfaces share keeps its plain form in one of them and carries a prefix in the others:
  \<open>m_\<close> in \<open>Market\<close>, \<open>ev\<close> in \<open>Evidence\<close>; \<open>Snapshot.id\<close> is \<open>snapId\<close> and
  \<open>SpotifySnapshot.region\<close> is \<open>chartRegion\<close>.
\<close>

record Market =
  m_id :: int
  m_marketId :: int
  songId :: string
  m_title :: "string option"
  m_artist :: "string option"
  quoteToken :: string
  ammAddress :: string
  yesToken :: string
  noToken :: string
  m_t0Rank :: int
  cutoffUtc :: int
  m_status :: string
  m_createdAt :: int

record Snapshot =
  snapId :: int
  dateUtc :: string
  region :: string
  jsonUrl :: string
  jsonSha256 :: string
  csvUrl :: "string option"
  csvSha256 :: "string option"
  ipfsCid :: "string option"
  createdAt :: int

text \<open>
  \<open>Resolution\<close> is also the type of the partial row handed to \<open>upsertResolution\<close>:
  there \<open>None\<close> is a key that the caller left out.
\<close>

record Resolution =
  marketId :: int
  t0SnapshotId :: "int option"
  t1SnapshotId :: "int option"
  t0Rank :: "int option"
  t1Rank :: "int option"
  outcome :: "int option"
  commitTx :: "string option"
  committedAt :: "int option"
  disputeUntil :: "int option"
  finalizeTx :: "string option"
  finalizedAt :: "int option"

record Db =
  markets :: "Market list"
  snapshots :: "Snapshot list"
  resolutions :: "int \<rightharpoonup> Resolution"

definition getMarket :: "Db \<Rightarrow> int \<Rightarrow> Market option" where
  "getMarket db mid = find (\<lambda>m. m_marketId m = mid) (markets db)"

definition getSnapshot :: "Db \<Rightarrow> int \<Rightarrow> Snapshot option" where
  "getSnapshot db sid = find (\<lambda>s. snapId s = sid) (snapshots db)"

definition getSnapshotByDate :: "Db \<Rightarrow> string \<Rightarrow> string \<Rightarrow> Snapshot option" where
  "getSnapshotByDate db date reg = find (\<lambda>s. dateUtc s = date \<and> region s = reg) (snapshots db)"

definition getResolution :: "Db \<Rightarrow> int \<Rightarrow> Resolution option" where
  "getResolution db mid = resolutions db mid"

text \<open>
  \<open>INSERT ... ON CONFLICT (market_id) DO UPDATE SET\<close> over the keys of the partial row:
  a key that is present overwrites the column, an absent key leaves it (or, on insert,
  leaves it \<open>NULL\<close>). The \<open>SMALLINT\<close> columns refuse a number outside their range.
\<close>

definition orElse :: "'a option \<Rightarrow> 'a option \<Rightarrow> 'a option" where
  "orElse new old = (case new of Some v \<Rightarrow> Some v | None \<Rightarrow> old)"

definition emptyResolution :: "int \<Rightarrow> Resolution" where
  "emptyResolution mid =
     \<lparr>marketId = mid, t0SnapshotId = None, t1SnapshotId = None, t0Rank = None,
      t1Rank = None, outcome = None, commitTx = None, committedAt = None,
      disputeUntil = None, finalizeTx = None, finalizedAt = None\<rparr>"

definition mergeResolution :: "Resolution \<Rightarrow> Resolution \<Rightarrow> Resolution" where
  "mergeResolution old new =
     \<lparr>marketId = marketId new,
      t0SnapshotId = orElse (t0SnapshotId new) (t0SnapshotId old),
      t1SnapshotId = orElse (t1SnapshotId new) (t1SnapshotId old),
      t0Rank = orElse (t0Rank new) (t0Rank old),
      t1Rank = orElse (t1Rank new) (t1Rank old),
      outcome = orElse (outcome new) (outcome old),
      commitTx = orElse (commitTx new) (commitTx old),
      committedAt = orElse (committedAt new) (committedAt old),
      disputeUntil = orElse (disputeUntil new) (disputeUntil old),
      finalizeTx = orElse (finalizeTx new) (finalizeTx old),
      finalizedAt = orElse (finalizedAt new) (finalizedAt old)\<rparr>"

fun fitsSmallint :: "int option \<Rightarrow> bool" where
  "fitsSmallint None = True"
| "fitsSmallint (Some n) = (- 32768 \<le> n \<and> n \<le> 32767)"

definition upsertResolution :: "Db \<Rightarrow> Resolution \<Rightarrow> error + Db" where
  "upsertResolution db new =
     (if fitsSmallint (t0Rank new) \<and> fitsSmallint (t1Rank new) \<and> fitsSmallint (outcome new)
      then Inr (db\<lparr>resolutions := (resolutions db)(marketId new \<mapsto>
                  mergeResolution
                    (case resolutions db (marketId new) of
                       None \<Rightarrow> emptyResolution (marketId new)
                     | Some old \<Rightarrow> old)
                    new)\<rparr>)
      else Inl DbOutOfRange)"

text \<open>Truthiness of a nullable number, text and date, as \<open>if (x)\<close> and \<open>!x\<close> read it.\<close>

fun truthyNumber :: "int option \<Rightarrow> bool" where
  "truthyNumber None = False"
| "truthyNumber (Some n) = (n \<noteq> 0)"

fun truthyString :: "string option \<Rightarrow> bool" where
  "truthyString None = False"
| "truthyString (Some s) = (s \<noteq> [])"

fun truthyDate :: "int option \<Rightarrow> bool" where
  "truthyDate None = False"
| "truthyDate (Some d) = True"

text \<open>\<open>x || fallback\<close> on a nullable text.\<close>

definition orDefault :: "string option \<Rightarrow> string \<Rightarrow> string" where
  "orDefault x fallback = (if truthyString x then the x else fallback)"

section \<open>The collaborators outside the repository\<close>

text \<open>
  What the jobs send out is kept in a trace: the contract writes and the alerts, in the
  order in which they happen.
\<close>

datatype event =
    CommitSent int "256 word" Evidence
  | FinalizeSent int int int int Evidence Evidence int
  | AlertJobFailure string int error
  | AlertResolutionSuccess int int string

text \<open>
  Node, the network, viem's \<open>keccak256\<close> and the chain behind viem enter as parameters.
  A fetch, a contract write or a contract read may fail (\<open>Inl\<close>, with the message of
  the error thrown), \<open>keccak256\<close> is \<open>None\<close> where it throws, and what a write
  returns may depend on everything sent before it.
\<close>

record World =
  nodeDigestHex :: "string \<Rightarrow> string"
  httpFetch :: "string \<Rightarrow> string + Response"
  jsonParse :: "string \<Rightarrow> json option"
  viemKeccak256 :: "string \<Rightarrow> 256 word option"
  walletAccount :: bool
  writeCommitResolve :: "event list \<Rightarrow> int \<Rightarrow> 256 word \<Rightarrow> Evidence \<Rightarrow> string + string"
  readDisputeWindow :: "string + int"
  writeFinalizeResolve ::
    "event list \<Rightarrow> int \<Rightarrow> int \<Rightarrow> int \<Rightarrow> int \<Rightarrow> Evidence \<Rightarrow> Evidence \<Rightarrow> int \<Rightarrow> string + string"

section \<open>chain/viem.ts: the contract calls\<close>

definition chainResult :: "string + 'a \<Rightarrow> error + 'a" where
  "chainResult r = (case r of Inl message \<Rightarrow> Inl (ChainError message) | Inr v \<Rightarrow> Inr v)"

definition getDisputeWindow :: "World \<Rightarrow> error + int" where
  "getDisputeWindow w = chainResult (readDisputeWindow w)"

definition sendCommitResolve ::
  "World \<Rightarrow> event list \<Rightarrow> int \<Rightarrow> 256 word \<Rightarrow> Evidence \<Rightarrow> (error + string) \<times> event list"
where
  "sendCommitResolve w tr mid commitment evidence =
     (if \<not> walletAccount w then (Inl (ChainError ''No wallet account configured''), tr)
      else (chainResult (writeCommitResolve w tr mid commitment evidence),
            tr @ [CommitSent mid commitment evidence]))"

text \<open>
  The job hands over \<open>resolution.outcome!\<close>, \<open>t0Rank!\<close> and \<open>t1Rank!\<close>; where the
  column is \<open>NULL\<close>, encoding the call arguments throws before anything is sent.
\<close>

definition sendFinalizeResolve ::
  "World \<Rightarrow> event list \<Rightarrow> int \<Rightarrow> int option \<Rightarrow> int option \<Rightarrow> int option \<Rightarrow>
   Evidence \<Rightarrow> Evidence \<Rightarrow> int \<Rightarrow> (error + string) \<times> event list"
where
  "sendFinalizeResolve w tr mid oc r0 r1 t0Evidence t1Evidence nonce =
     (if \<not> walletAccount w then (Inl (ChainError ''No wallet account configured''), tr)
      else
        (case (oc, r0, r1) of
           (Some oc', Some r0', Some r1') \<Rightarrow>
             (chainResult (writeFinalizeResolve w tr mid oc' r0' r1' t0Evidence t1Evidence nonce),
              tr @ [FinalizeSent mid oc' r0' r1' t0Evidence t1Evidence nonce])
         | _ \<Rightarrow> (Inl TypeError, tr)))"

section \<open>jobs/prepareResolve.ts\<close>

record PrepareResolveJobData =
  jobMarketId :: int
  t0Date :: string
  t1Date :: string
  jobRegion :: "string option"

datatype PrepareResult = Prepared int int int int int int

text \<open>
  The job throws on \<open>!validateSnapshotSchema(t0Data) || !validateSnapshotSchema(t1Data)\<close>;
  \<open>bothValid\<close> is the condition under which it goes on. The second document is looked at
  only when the first has passed.
\<close>

definition bothValid :: "json \<Rightarrow> json \<Rightarrow> error + bool" where
  "bothValid t0Data t1Data =
     (case validateSnapshotSchema t0Data of
        Inl e \<Rightarrow> Inl e
      | Inr valid \<Rightarrow> if valid then validateSnapshotSchema t1Data else Inr False)"

text \<open>
  The body of the \<open>try\<close> block, in two parts: everything up to the two ranks
  (\<open>prepareRead\<close>), then the outcome and the write of the row. The two fetches of a
  \<open>Promise.all\<close> are taken in the order of the array; the \<open>job.log\<close> lines, which
  only write to the job's own log, are left out here and in the other two jobs.
\<close>

definition prepareRead ::
  "World \<Rightarrow> Db \<Rightarrow> PrepareResolveJobData \<Rightarrow> error + Market \<times> Snapshot \<times> Snapshot \<times> int \<times> int"
where
  "prepareRead w db job =
     (let mid = jobMarketId job;
          reg = (case jobRegion job of None \<Rightarrow> ''global'' | Some r \<Rightarrow> r)
      in
      case getMarket db mid of
        None \<Rightarrow> Inl (MarketNotFound mid)
      | Some market \<Rightarrow>
      case getSnapshotByDate db (t0Date job) reg of
        None \<Rightarrow> Inl (NoSnapshotFound (t0Date job) reg)
      | Some t0Snapshot \<Rightarrow>
      case getSnapshotByDate db (t1Date job) reg of
        None \<Rightarrow> Inl (NoSnapshotFound (t1Date job) reg)
      | Some t1Snapshot \<Rightarrow>
      case fetchAndVerifyHash (nodeDigestHex w) (httpFetch w)
             (jsonUrl t0Snapshot) (jsonSha256 t0Snapshot) of
        Inl e \<Rightarrow> Inl e
      | Inr t0Buffer \<Rightarrow>
      case fetchAndVerifyHash (nodeDigestHex w) (httpFetch w)
             (jsonUrl t1Snapshot) (jsonSha256 t1Snapshot) of
        Inl e \<Rightarrow> Inl e
      | Inr t1Buffer \<Rightarrow>
      case jsonParse w t0Buffer of
        None \<Rightarrow> Inl JsonSyntaxError
      | Some t0Data \<Rightarrow>
      case jsonParse w t1Buffer of
        None \<Rightarrow> Inl JsonSyntaxError
      | Some t1Data \<Rightarrow>
      case bothValid t0Data t1Data of
        Inl e \<Rightarrow> Inl e
      | Inr valid \<Rightarrow>
      if \<not> valid then Inl InvalidSnapshotSchema
      else
      case (asSnapshot t0Data, asSnapshot t1Data) of
        (Some t0Doc, Some t1Doc) \<Rightarrow>
          Inr (market, t0Snapshot, t1Snapshot,
               extractRankBySongId t0Doc (songId market),
               extractRankBySongId t1Doc (songId market))
      | _ \<Rightarrow> Inl TypeError)"

definition prepareBody :: "World \<Rightarrow> Db \<Rightarrow> PrepareResolveJobData \<Rightarrow> error + PrepareResult \<times> Db" where
  "prepareBody w db job =
     (case prepareRead w db job of
        Inl e \<Rightarrow> Inl e
      | Inr (market, t0Snapshot, t1Snapshot, r0, r1) \<Rightarrow>
          (let oc = computeOutcome r0 r1 in
           case upsertResolution db
                  ((emptyResolution (m_marketId market))
                     \<lparr>t0SnapshotId := Some (snapId t0Snapshot),
                      t1SnapshotId := Some (snapId t1Snapshot),
                      t0Rank := Some r0, t1Rank := Some r1, outcome := Some oc\<rparr>) of
             Inl e \<Rightarrow> Inl e
           | Inr db' \<Rightarrow>
               Inr (Prepared (jobMarketId job) r0 r1 oc (snapId t0Snapshot) (snapId t1Snapshot),
                    db')))"

text \<open>The \<open>catch\<close> block: alert, then throw the error on.\<close>

definition prepareResolveJob ::
  "World \<Rightarrow> event list \<Rightarrow> Db \<Rightarrow> PrepareResolveJobData \<Rightarrow> (error + PrepareResult) \<times> event list \<times> Db"
where
  "prepareResolveJob w tr db job =
     (case prepareBody w db job of
        Inl e \<Rightarrow> (Inl e, tr @ [AlertJobFailure ''prepareResolve'' (jobMarketId job) e], db)
      | Inr (res, db') \<Rightarrow> (Inr res, tr, db'))"

section \<open>jobs/commitResolve.ts\<close>

datatype CommitResult =
    AlreadyCommitted int string
  | Committed int string int int

text \<open>\<open>id ? getSnapshot(id) : null\<close>\<close>

definition snapshotFor :: "Db \<Rightarrow> int option \<Rightarrow> Snapshot option" where
  "snapshotFor db sid = (case sid of None \<Rightarrow> None | Some i \<Rightarrow> getSnapshot db i)"

definition evidenceOf :: "Snapshot \<Rightarrow> Evidence" where
  "evidenceOf s =
     \<lparr>evCsvUrl = orDefault (csvUrl s) '''',
      evCsvSha256 = orDefault (csvSha256 s) zeroHash,
      evJsonUrl = jsonUrl s,
      evJsonSha256 = jsonSha256 s,
      evIpfsCid = orDefault (ipfsCid s) ''''\<rparr>"

text \<open>
  The body of the \<open>try\<close> block; \<open>nowMs\<close> is the reading of \<open>Date.now()\<close> and
  \<open>nowDate\<close> that of \<open>new Date()\<close>.
\<close>

definition commitBody ::
  "World \<Rightarrow> event list \<Rightarrow> Db \<Rightarrow> int \<Rightarrow> int \<Rightarrow> int \<Rightarrow> (error + CommitResult) \<times> event list \<times> Db"
where
  "commitBody w tr db nowMs nowDate mid =
     (case getMarket db mid of
        None \<Rightarrow> (Inl (MarketNotFound mid), tr, db)
      | Some market \<Rightarrow>
      case getResolution db mid of
        None \<Rightarrow> (Inl (ResolutionNotPrepared mid), tr, db)
      | Some resolution \<Rightarrow>
      if \<not> truthyNumber (outcome resolution) then (Inl (ResolutionNotPrepared mid), tr, db)
      else if truthyString (commitTx resolution)
      then (Inr (AlreadyCommitted mid (the (commitTx resolution))), tr, db)
      else
      case (snapshotFor db (t0SnapshotId resolution), snapshotFor db (t1SnapshotId resolution)) of
        (Some t0Snapshot, Some t1Snapshot) \<Rightarrow>
          (let t0Evidence = evidenceOf t0Snapshot;
               t1Evidence = evidenceOf t1Snapshot;
               oc = the (outcome resolution)
           in
           case (t0Rank resolution, t1Rank resolution) of
             (Some r0, Some r1) \<Rightarrow>
               (case computeCommitment (viemKeccak256 w) (m_marketId market) r0 r1 oc
                       t0Evidence t1Evidence 0 of
                  Inl e \<Rightarrow> (Inl e, tr, db)
                | Inr commitment \<Rightarrow>
                  (case sendCommitResolve w tr (m_marketId market) commitment t0Evidence of
                     (Inl e, tr') \<Rightarrow> (Inl e, tr', db)
                   | (Inr txHash, tr') \<Rightarrow>
                     (case getDisputeWindow w of
                        Inl e \<Rightarrow> (Inl e, tr', db)
                      | Inr disputeWindowSeconds \<Rightarrow>
                        (let until = nowMs + disputeWindowSeconds * 1000 in
                         case upsertResolution db
                                ((emptyResolution (m_marketId market))
                                   \<lparr>commitTx := Some txHash, committedAt := Some nowDate,
                                    disputeUntil := Some until\<rparr>) of
                           Inl e \<Rightarrow> (Inl e, tr', db)
                         | Inr db' \<Rightarrow>
                             (Inr (Committed mid txHash until oc),
                              tr' @ [AlertResolutionSuccess mid oc ''commit''], db')))))
           | _ \<Rightarrow> (Inl TypeError, tr, db))
      | _ \<Rightarrow> (Inl (MissingSnapshotEvidence mid), tr, db))"

definition commitResolveJob ::
  "World \<Rightarrow> event list \<Rightarrow> Db \<Rightarrow> int \<Rightarrow> int \<Rightarrow> int \<Rightarrow> (error + CommitResult) \<times> event list \<times> Db"
where
  "commitResolveJob w tr db nowMs nowDate mid =
     (case commitBody w tr db nowMs nowDate mid of
        (Inl e, tr', db') \<Rightarrow> (Inl e, tr' @ [AlertJobFailure ''commitResolve'' mid e], db')
      | (Inr res, tr', db') \<Rightarrow> (Inr res, tr', db'))"

section \<open>jobs/finalizeResolve.ts\<close>

datatype FinalizeResult =
    AlreadyFinalized int string
  | Finalized int string "int option"

text \<open>What the job holds when it reaches \<open>sendFinalizeResolve\<close>.\<close>

record FinalizeCall =
  callMarket :: Market
  callOutcome :: "int option"
  callT0Rank :: "int option"
  callT1Rank :: "int option"
  callT0Evidence :: Evidence
  callT1Evidence :: Evidence

text \<open>
  The job up to the contract write: the reads of the store and the guards; \<open>now\<close> is the
  reading of \<open>new Date()\<close> at the dispute window check. \<open>Inr (Inl r)\<close> is the early
  return, \<open>Inr (Inr call)\<close> goes on to the write.
\<close>

definition finalizeCheck :: "Db \<Rightarrow> int \<Rightarrow> int \<Rightarrow> error + (FinalizeResult + FinalizeCall)" where
  "finalizeCheck db now mid =
     (case getMarket db mid of
        None \<Rightarrow> Inl (MarketNotFound mid)
      | Some market \<Rightarrow>
      case getResolution db mid of
        None \<Rightarrow> Inl (ResolutionNotCommitted mid)
      | Some resolution \<Rightarrow>
      if \<not> truthyString (commitTx resolution) \<or> \<not> truthyDate (disputeUntil resolution)
      then Inl (ResolutionNotCommitted mid)
      else if truthyString (finalizeTx resolution)
      then Inr (Inl (AlreadyFinalized mid (the (finalizeTx resolution))))
      else if now < the (disputeUntil resolution)
      then Inl (DisputeWindowActive (the (disputeUntil resolution)))
      else
      case (snapshotFor db (t0SnapshotId resolution), snapshotFor db (t1SnapshotId resolution)) of
        (Some t0Snapshot, Some t1Snapshot) \<Rightarrow>
          Inr (Inr \<lparr>callMarket = market, callOutcome = outcome resolution,
                    callT0Rank = t0Rank resolution, callT1Rank = t1Rank resolution,
                    callT0Evidence = evidenceOf t0Snapshot,
                    callT1Evidence = evidenceOf t1Snapshot\<rparr>)
      | _ \<Rightarrow> Inl (MissingSnapshotEvidence mid))"

definition finalizeSend :: "World \<Rightarrow> event list \<Rightarrow> FinalizeCall \<Rightarrow> (error + string) \<times> event list" where
  "finalizeSend w tr call =
     sendFinalizeResolve w tr (m_marketId (callMarket call)) (callOutcome call)
       (callT0Rank call) (callT1Rank call) (callT0Evidence call) (callT1Evidence call) 0"

definition finalizePersist :: "Db \<Rightarrow> FinalizeCall \<Rightarrow> string \<Rightarrow> int \<Rightarrow> error + Db" where
  "finalizePersist db call txHash now =
     upsertResolution db
       ((emptyResolution (m_marketId (callMarket call)))
          \<lparr>finalizeTx := Some txHash, finalizedAt := Some now\<rparr>)"

text \<open>
  The body of the \<open>try\<close> block; \<open>nowCheck\<close> and \<open>nowPersist\<close> are the two readings
  of \<open>new Date()\<close>.
\<close>

definition finalizeBody ::
  "World \<Rightarrow> event list \<Rightarrow> Db \<Rightarrow> int \<Rightarrow> int \<Rightarrow> int \<Rightarrow> (error + FinalizeResult) \<times> event list \<times> Db"
where
  "finalizeBody w tr db nowCheck nowPersist mid =
     (case finalizeCheck db nowCheck mid of
        Inl e \<Rightarrow> (Inl e, tr, db)
      | Inr (Inl res) \<Rightarrow> (Inr res, tr, db)
      | Inr (Inr call) \<Rightarrow>
        (case finalizeSend w tr call of
           (Inl e, tr') \<Rightarrow> (Inl e, tr', db)
         | (Inr txHash, tr') \<Rightarrow>
           (case finalizePersist db call txHash nowPersist of
              Inl e \<Rightarrow> (Inl e, tr', db)
            | Inr db' \<Rightarrow>
                (Inr (Finalized mid txHash (callOutcome call)),
                 tr' @ [AlertResolutionSuccess mid (the (callOutcome call)) ''finalize''],
                 db'))))"

definition finalizeResolveJob ::
  "World \<Rightarrow> event list \<Rightarrow> Db \<Rightarrow> int \<Rightarrow> int \<Rightarrow> int \<Rightarrow> (error + FinalizeResult) \<times> event list \<times> Db"
where
  "finalizeResolveJob w tr db nowCheck nowPersist mid =
     (case finalizeBody w tr db nowCheck nowPersist mid of
        (Inl e, tr', db') \<Rightarrow> (Inl e, tr' @ [AlertJobFailure ''finalizeResolve'' mid e], db')
      | (Inr res, tr', db') \<Rightarrow> (Inr res, tr', db'))"

section \<open>Two finalize runs side by side\<close>

text \<open>
  A run of \<open>finalizeResolveJob\<close> gives way to the other worker at its \<open>await\<close>s. The
  three stretches modelled here are the coarsest that matter: the reads and guards, the
  contract write, and the write of the row; each turn runs one stretch of one worker on the
  shared store and trace, with the clock reading of that moment.
\<close>

datatype worker =
    Waiting
  | Checked FinalizeCall
  | Sent FinalizeCall string
  | Stopped "error + FinalizeResult"

definition workerStep ::
  "World \<Rightarrow> int \<Rightarrow> int \<Rightarrow> worker \<times> event list \<times> Db \<Rightarrow> worker \<times> event list \<times> Db"
where
  "workerStep w mid now cfg =
     (case cfg of (st, tr, db) \<Rightarrow>
        (case st of
           Waiting \<Rightarrow>
             (case finalizeCheck db now mid of
                Inl e \<Rightarrow> (Stopped (Inl e), tr @ [AlertJobFailure ''finalizeResolve'' mid e], db)
              | Inr (Inl res) \<Rightarrow> (Stopped (Inr res), tr, db)
              | Inr (Inr call) \<Rightarrow> (Checked call, tr, db))
         | Checked call \<Rightarrow>
             (case finalizeSend w tr call of
                (Inl e, tr') \<Rightarrow>
                  (Stopped (Inl e), tr' @ [AlertJobFailure ''finalizeResolve'' mid e], db)
              | (Inr txHash, tr') \<Rightarrow> (Sent call txHash, tr', db))
         | Sent call txHash \<Rightarrow>
             (case finalizePersist db call txHash now of
                Inl e \<Rightarrow> (Stopped (Inl e), tr @ [AlertJobFailure ''finalizeResolve'' mid e], db)
              | Inr db' \<Rightarrow>
                  (Stopped (Inr (Finalized mid txHash (callOutcome call))),
                   tr @ [AlertResolutionSuccess mid (the (callOutcome call)) ''finalize''],
                   db'))
         | Stopped r \<Rightarrow> (Stopped r, tr, db)))"

datatype turn = WorkerA int | WorkerB int

fun runSchedule ::
  "World \<Rightarrow> int \<Rightarrow> turn list \<Rightarrow> worker \<times> worker \<times> event list \<times> Db \<Rightarrow>
   worker \<times> worker \<times> event list \<times> Db"
where
  "runSchedule w mid [] cfg = cfg"
| "runSchedule w mid (WorkerA now # rest) (a, b, tr, db) =
     (case workerStep w mid now (a, tr, db) of
        (a', tr', db') \<Rightarrow> runSchedule w mid rest (a', b, tr', db'))"
| "runSchedule w mid (WorkerB now # rest) (a, b, tr, db) =
     (case workerStep w mid now (b, tr, db) of
        (b', tr', db') \<Rightarrow> runSchedule w mid rest (a, b', tr', db'))"

fun isChainWrite :: "event \<Rightarrow> bool" where
  "isChainWrite (CommitSent mid c ev) = True"
| "isChainWrite (FinalizeSent mid oc r0 r1 e0 e1 n) = True"
| "isChainWrite _ = False"

definition chainWrites :: "event list \<Rightarrow> event list" where
  "chainWrites tr = filter isChainWrite tr"

section \<open>Sample data\<close>

text \<open>
  The scenario of the specification: a market whose item stands at rank 12 in the t0 chart
  and at rank 8 in the t1 chart.
\<close>

definition chartDoc :: "string \<Rightarrow> int \<Rightarrow> json" where
  "chartDoc date r =
     JObj [(''schema'', JStr ''hitcastor.spotify.top100.v1''), (''dateUTC'', JStr date),
           (''region'', JStr ''global''), (''provider'', JStr ''spotify''),
           (''listLength'', JNum 1),
           (''items'', JArr [JObj [(''rank'', JNum r), (''title'', JStr ''Song''),
                                  (''artist'', JStr ''Artist''), (''streams'', JNum 1000),
                                  (''trackId'', JStr ''spotify:track:abc''),
                                  (''spotifyUrl'', JStr ''https://open.spotify.com/track/abc'')]])]"

definition sampleWorld :: World where
  "sampleWorld =
     \<lparr>nodeDigestHex = (\<lambda>body. if body = ''t0 chart''
         then ''a0a0a0a0a0a0a0a0a0a0a0a0a0a0a0a0a0a0a0a0a0a0a0a0a0a0a0a0a0a0a0a0''
         else if body = ''t1 chart''
         then ''a1a1a1a1a1a1a1a1a1a1a1a1a1a1a1a1a1a1a1a1a1a1a1a1a1a1a1a1a1a1a1a1''
         else ''''),
      httpFetch = (\<lambda>url.
         if url = ''https://charts.example/t0.json''
         then Inr \<lparr>ok = True, status = 200, statusText = ''OK'', arrayBuffer = ''t0 chart''\<rparr>
         else if url = ''https://charts.example/t1.json''
         then Inr \<lparr>ok = True, status = 200, statusText = ''OK'', arrayBuffer = ''t1 chart''\<rparr>
         else Inl ''fetch failed''),
      jsonParse = (\<lambda>body.
         if body = ''t0 chart'' then Some (chartDoc ''2024-01-01'' 12)
         else if body = ''t1 chart'' then Some (chartDoc ''2024-01-08'' 8)
         else None),
      viemKeccak256 = (\<lambda>packed. Some (of_nat (length packed))),
      walletAccount = True,
      writeCommitResolve = (\<lambda>tr mid commitment evidence. Inr ''0xc1''),
      readDisputeWindow = Inr 3600,
      writeFinalizeResolve = (\<lambda>tr mid oc r0 r1 e0 e1 nonce.
         if chainWrites tr = [] then Inr ''0xf1'' else Inr ''0xf2'')\<rparr>"

definition sampleMarket :: Market where
  "sampleMarket =
     \<lparr>m_id = 1, m_marketId = 1, songId = ''abc'', m_title = Some ''Song'',
      m_artist = Some ''Artist'', quoteToken = ''USDT'', ammAddress = ''amm'',
      yesToken = ''yes'', noToken = ''no'', m_t0Rank = 12, cutoffUtc = 0,
      m_status = ''OPEN'', m_createdAt = 0\<rparr>"

definition snapT0 :: Snapshot where
  "snapT0 =
     \<lparr>snapId = 1, dateUtc = ''2024-01-01'', region = ''global'',
      jsonUrl = ''https://charts.example/t0.json'',
      jsonSha256 = ''0xA0A0A0A0A0A0A0A0A0A0A0A0A0A0A0A0A0A0A0A0A0A0A0A0A0A0A0A0A0A0A0A0'',
      csvUrl = None, csvSha256 = None, ipfsCid = None, createdAt = 0\<rparr>"

definition snapT1 :: Snapshot where
  "snapT1 =
     \<lparr>snapId = 2, dateUtc = ''2024-01-08'', region = ''global'',
      jsonUrl = ''https://charts.example/t1.json'',
      jsonSha256 = ''0xa1a1a1a1a1a1a1a1a1a1a1a1a1a1a1a1a1a1a1a1a1a1a1a1a1a1a1a1a1a1a1a1'',
      csvUrl = None, csvSha256 = None, ipfsCid = None, createdAt = 0\<rparr>"

definition sampleSnapshots :: "Snapshot list" where
  "sampleSnapshots = [snapT0, snapT1]"

definition sampleJob :: PrepareResolveJobData where
  "sampleJob = \<lparr>jobMarketId = 1, t0Date = ''2024-01-01'', t1Date = ''2024-01-08'', jobRegion = None\<rparr>"

text \<open>No resolution yet.\<close>

definition freshDb :: Db where
  "freshDb = \<lparr>markets = [sampleMarket], snapshots = sampleSnapshots, resolutions = Map.empty\<rparr>"

text \<open>
  A resolution prepared earlier from other evidence (outcome NO) and already committed.
\<close>

definition earlierResolution :: Resolution where
  "earlierResolution =
     \<lparr>marketId = 1, t0SnapshotId = Some 1, t1SnapshotId = Some 1, t0Rank = Some 12,
      t1Rank = Some 12, outcome = Some 2, commitTx = Some ''0xc0'', committedAt = Some 1000,
      disputeUntil = Some 5000, finalizeTx = None, finalizedAt = None\<rparr>"

definition earlierDb :: Db where
  "earlierDb =
     \<lparr>markets = [sampleMarket], snapshots = sampleSnapshots,
      resolutions = [1 \<mapsto> earlierResolution]\<rparr>"

text \<open>The resolution of the scenario, committed, with its dispute window ending at 5000.\<close>

definition committedResolution :: Resolution where
  "committedResolution =
     \<lparr>marketId = 1, t0SnapshotId = Some 1, t1SnapshotId = Some 2, t0Rank = Some 12,
      t1Rank = Some 8, outcome = Some 1, commitTx = Some ''0xc1'', committedAt = Some 1000,
      disputeUntil = Some 5000, finalizeTx = None, finalizedAt = None\<rparr>"

definition committedDb :: Db where
  "committedDb =
     \<lparr>markets = [sampleMarket], snapshots = sampleSnapshots,
      resolutions = [1 \<mapsto> committedResolution]\<rparr>"

text \<open>What a finalize run on \<open>committedDb\<close> holds after its guards.\<close>

definition sampleCall :: FinalizeCall where
  "sampleCall =
     \<lparr>callMarket = sampleMarket, callOutcome = Some 1, callT0Rank = Some 12,
      callT1Rank = Some 8, callT0Evidence = evidenceOf snapT0,
      callT1Evidence = evidenceOf snapT1\<rparr>"

text \<open>Both workers read, then both write to the chain, then both write the row.\<close>

definition raceSchedule :: "turn list" where
  "raceSchedule =
     [WorkerA 5000, WorkerB 5000, WorkerA 5001, WorkerB 5001, WorkerA 5002, WorkerB 5002]"

section \<open>Properties of lib/rank.ts\<close>

text \<open>
  C1. \<open>computeOutcome\<close> answers YES exactly when the rank at t1 is smaller than the rank
  at t0 and NO in every other case; a tie is NO, and an item absent at t1 (rank 101) is NO
  for every t0 rank up to 101. The examples of the specification are included.
\<close>

theorem computeOutcome_iff:
  "(computeOutcome t0 t1 = YES \<longleftrightarrow> t1 < t0)
   \<and> (computeOutcome t0 t1 = NO \<longleftrightarrow> \<not> t1 < t0)
   \<and> computeOutcome t0 t0 = NO
   \<and> (computeOutcome t0 101 = NO \<longleftrightarrow> t0 \<le> 101)
   \<and> computeOutcome 5 3 = YES \<and> computeOutcome 5 5 = NO \<and> computeOutcome 3 5 = NO
   \<and> computeOutcome 101 50 = YES \<and> computeOutcome 50 101 = NO"
  by (simp add: computeOutcome_def YES_def NO_def)










section \<open>Properties of lib/hash.ts\<close>

lemma lower_0x: "toLowerCase (CHR ''0'' # CHR ''x'' # h) = CHR ''0'' # CHR ''x'' # toLowerCase h"
  by (simp add: toLowerCase_def lowerChar_def)

lemma length_toLowerCase: "length (toLowerCase s) = length s"
  by (simp add: toLowerCase_def)

lemma verifyHash_eq:
  "verifyHash digestHex data expectedHash
     \<longleftrightarrow> toLowerCase expectedHash = ''0x'' @ toLowerCase (digestHex data)"
  by (auto simp: verifyHash_def sha256_def lower_0x)

lemma bare_digest_rejected:
  assumes "toLowerCase expectedHash = toLowerCase (digestHex data)"
  shows "\<not> verifyHash digestHex data expectedHash"
proof
  assume "verifyHash digestHex data expectedHash"
  then have "toLowerCase expectedHash = ''0x'' @ toLowerCase (digestHex data)"
    by (simp add: verifyHash_eq)
  then have "length (toLowerCase expectedHash) = 2 + length (toLowerCase (digestHex data))"
    by simp
  with assms show False by simp
qed

text \<open>
  C10. \<open>verifyHash\<close> holds exactly when the expected text, in lower case, is \<open>0x\<close>
  followed by the digest in lower-case hexadecimal. A correct digest given without the
  \<open>0x\<close> (in either case of its letters) is therefore never accepted, and
  \<open>fetchAndVerifyHash\<close> turns the fetched bytes down as a hash verification failure.
\<close>

theorem verifyHash_iff:
  "(verifyHash digestHex data expectedHash
      \<longleftrightarrow> toLowerCase expectedHash = ''0x'' @ toLowerCase (digestHex data))
   \<and> (toLowerCase expectedHash = toLowerCase (digestHex data)
        \<longrightarrow> \<not> verifyHash digestHex data expectedHash)
   \<and> (toLowerCase expectedHash = toLowerCase (digestHex data)
        \<and> fetch url = Inr response \<and> ok response \<and> arrayBuffer response = data
        \<longrightarrow> fetchAndVerifyHash digestHex fetch url expectedHash
            = Inl (HashVerificationFailed url expectedHash (sha256 digestHex data)))"
  using bare_digest_rejected[of expectedHash digestHex data]
  by (auto simp: verifyHash_eq fetchAndVerifyHash_def)

text \<open>The theorem at the known digest of \<open>hello world\<close>, expected without its \<open>0x\<close>.\<close>

theorem verifyHash_iff_witness:
  "toLowerCase bareHelloHash = toLowerCase (helloDigest ''hello world'')
   \<and> helloFetch ''https://charts.example/t0.json''
       = Inr \<lparr>ok = True, status = 200, statusText = ''OK'', arrayBuffer = ''hello world''\<rparr>
   \<and> \<not> verifyHash helloDigest ''hello world'' bareHelloHash
   \<and> verifyHash helloDigest ''hello world'' helloHash
   \<and> fetchAndVerifyHash helloDigest helloFetch ''https://charts.example/t0.json'' bareHelloHash
       = Inl (HashVerificationFailed ''https://charts.example/t0.json'' bareHelloHash helloHash)"
proof -
  have a: "toLowerCase bareHelloHash = toLowerCase (helloDigest ''hello world'')"
    by (simp add: bareHelloHash_def helloDigest_def toLowerCase_def lowerChar_def)
  have b: "helloFetch ''https://charts.example/t0.json''
       = Inr \<lparr>ok = True, status = 200, statusText = ''OK'', arrayBuffer = ''hello world''\<rparr>"
    by (simp add: helloFetch_def)
  have c: "sha256 helloDigest ''hello world'' = helloHash"
    by (simp add: sha256_def helloDigest_def helloHash_def)
  have d: "toLowerCase helloHash = ''0x'' @ toLowerCase (helloDigest ''hello world'')"
    by (simp add: helloHash_def helloDigest_def toLowerCase_def lowerChar_def)
  from verifyHash_iff[of helloDigest "''hello world''" bareHelloHash helloFetch
      "''https://charts.example/t0.json''"
      "\<lparr>ok = True, status = 200, statusText = ''OK'', arrayBuffer = ''hello world''\<rparr>"]
    verifyHash_eq[of helloDigest "''hello world''" helloHash] a b c d
  show ?thesis by simp
qed

section \<open>Properties of the commitment\<close>

lemma length_beBytes: "length (beBytes k v) = k"
  by (induction k arbitrary: v) auto

lemma beBytes_inj: "v < 256 ^ k \<Longrightarrow> w < 256 ^ k \<Longrightarrow> beBytes k v = beBytes k w \<Longrightarrow> v = w"
proof (induction k arbitrary: v w)
  case 0 then show ?case by simp
next
  case (Suc k)
  from Suc.prems(3) have a: "beBytes k (v div 256) = beBytes k (w div 256)"
    and b: "(of_nat (v mod 256) :: byte) = of_nat (w mod 256)"
    by (simp_all add: length_beBytes)
  have "v div 256 < 256 ^ k" "w div 256 < 256 ^ k"
    using Suc.prems(1,2) by (simp_all add: less_mult_imp_div_less mult.commute)
  with a Suc.IH have "v div 256 = w div 256" by blast
  moreover from b have "v mod 256 = w mod 256"
    by (simp add: word_of_nat_eq_iff take_bit_eq_mod)
  ultimately show ?case by (metis div_mult_mod_eq)
qed

lemma byte_of_char_inj: "(of_nat (of_char c) :: byte) = of_nat (of_char d) \<Longrightarrow> c = d"
proof -
  assume "(of_nat (of_char c) :: byte) = of_nat (of_char d)"
  then have "(of_char c :: nat) mod 256 = of_char d mod 256"
    by (simp add: word_of_nat_eq_iff take_bit_eq_mod)
  then show "c = d" by simp
qed

lemma stringToBytes_inj: "stringToBytes a = stringToBytes b \<Longrightarrow> a = b"
  unfolding stringToBytes_def
proof (induction a arbitrary: b)
  case Nil then show ?case by simp
next
  case (Cons c cs)
  then obtain d ds where b: "b = d # ds" by (cases b) auto
  with Cons.prems have "c = d" and "map (\<lambda>c. of_nat (of_char c) :: byte) cs = map (\<lambda>c. of_nat (of_char c)) ds"
    by (auto dest: byte_of_char_inj)
  with Cons.IH b show ?case by simp
qed

lemma hexChar_inj: "a < 16 \<Longrightarrow> b < 16 \<Longrightarrow> hexChar a = hexChar b \<Longrightarrow> a = b"
proof -
  assume a: "a < 16" and b: "b < 16" and e: "hexChar a = hexChar b"
  have d: "distinct ''0123456789abcdef''" by simp
  have l: "length ''0123456789abcdef'' = 16" by simp
  from e have "''0123456789abcdef'' ! a = ''0123456789abcdef'' ! b" by (simp only: hexChar_def)
  with d a b l show "a = b" by (simp only: nth_eq_iff_index_eq)
qed

lemma hexChar_lower: "n < 16 \<Longrightarrow> lowerChar (hexChar n) = hexChar n"
proof -
  assume n: "n < 16"
  have "\<forall>c \<in> set ''0123456789abcdef''. lowerChar c = c" by (simp add: lowerChar_def)
  moreover have "hexChar n \<in> set ''0123456789abcdef''"
    unfolding hexChar_def by (rule nth_mem) (use n in simp)
  ultimately show ?thesis by blast
qed

lemma byteToHex_inj: "byteToHex a = byteToHex b \<Longrightarrow> a = b"
proof -
  assume e: "byteToHex a = byteToHex b"
  have ra: "unat a < 256" using unsigned_less[of a] by simp
  have rb: "unat b < 256" using unsigned_less[of b] by simp
  from ra rb have r: "unat a div 16 < 16" "unat b div 16 < 16" "unat a mod 16 < 16" "unat b mod 16 < 16"
    by simp_all
  from e have h: "hexChar (unat a div 16) = hexChar (unat b div 16)"
    and l: "hexChar (unat a mod 16) = hexChar (unat b mod 16)"
    by (simp_all add: byteToHex_def)
  have "unat a div 16 = unat b div 16" by (rule hexChar_inj[OF r(1) r(2) h])
  moreover have "unat a mod 16 = unat b mod 16" by (rule hexChar_inj[OF r(3) r(4) l])
  ultimately have "unat a = unat b" by (metis div_mult_mod_eq)
  then show "a = b" by (simp add: word_unat_eq_iff)
qed

lemma byteToHex_lower: "toLowerCase (byteToHex b) = byteToHex b"
proof -
  have "unat b < 256" using unsigned_less[of b] by simp
  then have "unat b div 16 < 16" "unat b mod 16 < 16" by simp_all
  then show ?thesis by (simp add: byteToHex_def toLowerCase_def hexChar_lower)
qed

lemma toLowerCase_append: "toLowerCase (a @ b) = toLowerCase a @ toLowerCase b"
  by (simp add: toLowerCase_def)

lemma digits_lower: "toLowerCase (concat (map byteToHex bs)) = concat (map byteToHex bs)"
  by (induction bs) (simp_all add: toLowerCase_append byteToHex_lower, simp add: toLowerCase_def)

lemma length_byteToHex: "length (byteToHex b) = 2"
  by (simp add: byteToHex_def)

lemma digits_inj: "concat (map byteToHex as) = concat (map byteToHex bs) \<Longrightarrow> as = bs"
proof (induction as arbitrary: bs)
  case Nil
  then show ?case by (cases bs) (simp_all add: byteToHex_def)
next
  case (Cons a as)
  then obtain b bs' where b: "bs = b # bs'" by (cases bs) (simp_all add: byteToHex_def)
  from Cons.prems b have "byteToHex a @ concat (map byteToHex as) = byteToHex b @ concat (map byteToHex bs')"
    by simp
  then have "byteToHex a = byteToHex b"
    and "concat (map byteToHex as) = concat (map byteToHex bs')"
    by (simp_all add: append_eq_append_conv length_byteToHex)
  with Cons.IH b show ?case by (simp add: byteToHex_inj)
qed

lemma strip_bytesToHex: "replaceFirst ''0x'' (bytesToHex bs) = concat (map byteToHex bs)"
  by (simp add: bytesToHex_def)

lemma encodeUint_same:
  assumes "encode (Uint bits) (Num v) = Inr a" "encode (Uint bits) (Num w) = Inr b" "bits mod 8 = 0"
    and "toLowerCase (replaceFirst ''0x'' a) = toLowerCase (replaceFirst ''0x'' b)"
  shows "v = w"
proof -
  from assms(1,2) have r: "0 \<le> v" "v < 2 ^ bits" "0 \<le> w" "w < 2 ^ bits"
    and a: "a = bytesToHex (beBytes (bits div 8) (nat v))"
    and b: "b = bytesToHex (beBytes (bits div 8) (nat w))"
    by (auto split: if_splits)
  from assms(4) have e: "beBytes (bits div 8) (nat v) = beBytes (bits div 8) (nat w)"
    unfolding a b strip_bytesToHex digits_lower by (rule digits_inj)
  have p: "(256::nat) ^ (bits div 8) = 2 ^ bits"
  proof -
    have "(256::nat) ^ (bits div 8) = (2 ^ 8) ^ (bits div 8)" by simp
    also have "\<dots> = 2 ^ (8 * (bits div 8))" by (simp only: power_mult)
    also have "8 * (bits div 8) = bits" using assms(3) by presburger
    finally show ?thesis .
  qed
  have "nat v < 2 ^ bits" "nat w < 2 ^ bits" using r by (simp_all add: nat_less_iff)
  with p have "nat v < 256 ^ (bits div 8)" "nat w < 256 ^ (bits div 8)" by simp_all
  from beBytes_inj[OF this e] r show ?thesis by simp
qed

lemma encode_same:
  assumes "encode t v = Inr a" and "encode t w = Inr b" and "t \<in> set commitmentTypes"
    and "toLowerCase (replaceFirst ''0x'' a) = toLowerCase (replaceFirst ''0x'' b)"
  shows "sameValue v w"
proof (cases t)
  case (Uint bits)
  from assms(3) Uint have m: "bits mod 8 = 0" by (auto simp: commitmentTypes_def)
  from assms(1) Uint obtain x where v: "v = Num x" by (cases v) auto
  from assms(2) Uint obtain y where w: "w = Num y" by (cases w) auto
  from encodeUint_same[OF _ _ m assms(4)] assms(1,2) Uint v w show ?thesis by simp
next
  case (Bytes n)
  from assms(1) Bytes obtain x where v: "v = Hex x" "a = x"
    by (cases v) (auto split: if_splits)
  from assms(2) Bytes obtain y where w: "w = Hex y" "b = y"
    by (cases w) (auto split: if_splits)
  from assms(4) v w show ?thesis by simp
next
  case String
  from assms(1) String obtain x where v: "v = Str x" "a = bytesToHex (stringToBytes x)"
    by (cases v) auto
  from assms(2) String obtain y where w: "w = Str y" "b = bytesToHex (stringToBytes y)"
    by (cases w) auto
  from assms(4) have "stringToBytes x = stringToBytes y"
    unfolding v(2) w(2) strip_bytesToHex digits_lower by (rule digits_inj)
  then have "x = y" by (rule stringToBytes_inj)
  with v w show ?thesis by simp
qed

lemma encodeEach_Cons:
  "encodeEach (t # ts) vs = Inr xs \<Longrightarrow>
     \<exists>v vs' a as. vs = v # vs' \<and> encode t v = Inr a \<and> encodeEach ts vs' = Inr as \<and> xs = a # as"
  by (cases vs) (auto split: sum.splits)

lemma encodeEach_length: "encodeEach ts vs = Inr xs \<Longrightarrow> length vs = length ts"
proof (induction ts arbitrary: vs xs)
  case Nil then show ?case by (cases vs) auto
next
  case (Cons t ts)
  from encodeEach_Cons[OF Cons.prems] Cons.IH show ?case by auto
qed

lemma encodeEach_single:
  assumes "encodeEach ts vs = Inr xs" and "encodeEach ts ws = Inr ys"
    and "i < length ts" and "\<not> sameValue (vs ! i) (ws ! i)"
    and "\<forall>j<length ts. j \<noteq> i \<longrightarrow> vs ! j = ws ! j"
    and "set ts \<subseteq> set commitmentTypes"
  shows "toLowerCase (concat (map (replaceFirst ''0x'') xs))
           \<noteq> toLowerCase (concat (map (replaceFirst ''0x'') ys))"
  using assms
proof (induction ts arbitrary: vs ws i xs ys)
  case Nil then show ?case by simp
next
  case (Cons t ts)
  from encodeEach_Cons[OF Cons.prems(1)] obtain v vs' a as where
    v: "vs = v # vs'" "encode t v = Inr a" "encodeEach ts vs' = Inr as" "xs = a # as" by blast
  from encodeEach_Cons[OF Cons.prems(2)] obtain w ws' b bs where
    w: "ws = w # ws'" "encode t w = Inr b" "encodeEach ts ws' = Inr bs" "ys = b # bs" by blast
  let ?A = "toLowerCase (replaceFirst ''0x'' a)" and ?B = "toLowerCase (replaceFirst ''0x'' b)"
  let ?As = "toLowerCase (concat (map (replaceFirst ''0x'') as))"
  let ?Bs = "toLowerCase (concat (map (replaceFirst ''0x'') bs))"
  have split: "toLowerCase (concat (map (replaceFirst ''0x'') xs)) = ?A @ ?As"
    "toLowerCase (concat (map (replaceFirst ''0x'') ys)) = ?B @ ?Bs"
    using v(4) w(4) by (simp_all add: toLowerCase_append)
  show ?case
  proof (cases i)
    case 0
    have "length vs' = length ws'"
      using encodeEach_length[OF v(3)] encodeEach_length[OF w(3)] by simp
    moreover have "\<forall>j<length vs'. vs' ! j = ws' ! j"
    proof (intro allI impI)
      fix j assume "j < length vs'"
      then have "Suc j < length (t # ts)" using encodeEach_length[OF v(3)] by simp
      with Cons.prems(5) 0 have "vs ! Suc j = ws ! Suc j" by blast
      then show "vs' ! j = ws' ! j" using v(1) w(1) by simp
    qed
    ultimately have "vs' = ws'" by (simp add: nth_equalityI)
    with v(3) w(3) have "as = bs" by simp
    moreover have "?A \<noteq> ?B"
    proof
      assume "?A = ?B"
      with v(2) w(2) Cons.prems(6) have "sameValue v w" by (auto intro: encode_same)
      with Cons.prems(4) 0 v(1) w(1) show False by simp
    qed
    ultimately show ?thesis unfolding split by simp
  next
    case (Suc k)
    from Cons.prems(5) Suc have "vs ! 0 = ws ! 0" by auto
    then have "v = w" using v(1) w(1) by simp
    with v(2) w(2) have "a = b" by simp
    have "?As \<noteq> ?Bs"
    proof (rule Cons.IH[OF v(3) w(3), of k])
      show "k < length ts" using Cons.prems(3) Suc by simp
      show "\<not> sameValue (vs' ! k) (ws' ! k)" using Cons.prems(4) Suc v(1) w(1) by simp
      show "\<forall>j<length ts. j \<noteq> k \<longrightarrow> vs' ! j = ws' ! j"
      proof (intro allI impI)
        fix j assume "j < length ts" "j \<noteq> k"
        then have "Suc j < length (t # ts)" "Suc j \<noteq> i" using Suc by simp_all
        with Cons.prems(5) have "vs ! Suc j = ws ! Suc j" by blast
        then show "vs' ! j = ws' ! j" using v(1) w(1) by simp
      qed
      show "set ts \<subseteq> set commitmentTypes" using Cons.prems(6) by simp
    qed
    with \<open>a = b\<close> show ?thesis unfolding split by simp
  qed
qed

lemma encodePacked_single:
  assumes "encodePacked ts vs = Inr p" and "encodePacked ts ws = Inr q"
    and "i < length ts" and "\<not> sameValue (vs ! i) (ws ! i)"
    and "\<forall>j<length ts. j \<noteq> i \<longrightarrow> vs ! j = ws ! j"
    and "set ts \<subseteq> set commitmentTypes"
  shows "toLowerCase p \<noteq> toLowerCase q"
proof -
  from assms(1) obtain xs where xs: "encodeEach ts vs = Inr xs" "p = concatHex xs"
    by (auto simp: encodePacked_def split: sum.splits)
  from assms(2) obtain ys where ys: "encodeEach ts ws = Inr ys" "q = concatHex ys"
    by (auto simp: encodePacked_def split: sum.splits)
  from encodeEach_single[OF xs(1) ys(1) assms(3,4,5,6)]
  show ?thesis unfolding xs(2) ys(2) concatHex_def toLowerCase_append by simp
qed

lemma values_update:
  "commitmentValues m r0 r1 oc e0 (e1\<lparr>evIpfsCid := c\<rparr>) n
     = (commitmentValues m r0 r1 oc e0 e1 n)[13 := Str c]"
  by (simp add: commitmentValues_def eval_nat_numeral)

text \<open>
  C2. \<open>computeCommitment\<close> is a function of its inputs: the digest that \<open>keccak256\<close> gives
  for the packed text. Take two inputs that the encoder accepts and that differ in exactly one
  of the fifteen fields, two hash texts that spell the same digits counting as the same value.
  Their packed texts differ in more than the case of letters; so, unless these two texts are a
  collision of \<open>keccak256\<close>, the digest of the first input is not the digest of the second.
  Strings are packed as the digits of their bytes, with no length and no delimiter.
\<close>

theorem computeCommitment_single_field:
  assumes "packCommitment m r0 r1 oc e0 e1 n = Inr p"
    and "packCommitment m' r0' r1' oc' e0' e1' n' = Inr q"
    and "i < 15"
    and "\<not> sameValue (commitmentValues m r0 r1 oc e0 e1 n ! i) (commitmentValues m' r0' r1' oc' e0' e1' n' ! i)"
    and "\<forall>j<15. j \<noteq> i \<longrightarrow> commitmentValues m r0 r1 oc e0 e1 n ! j = commitmentValues m' r0' r1' oc' e0' e1' n' ! j"
    and "keccak256 p = Some d"
    and "\<not> collision keccak256 p q"
  shows "computeCommitment keccak256 m r0 r1 oc e0 e1 n = Inr d
    \<and> computeCommitment keccak256 m' r0' r1' oc' e0' e1' n' \<noteq> Inr d
    \<and> toLowerCase p \<noteq> toLowerCase q"
proof -
  have l: "length commitmentTypes = 15" by (simp add: commitmentTypes_def)
  have t: "toLowerCase p \<noteq> toLowerCase q"
    using encodePacked_single[OF assms(1)[unfolded packCommitment_def] assms(2)[unfolded packCommitment_def], of i]
      assms(3,4,5) l by simp
  with assms(7) have "keccak256 p \<noteq> keccak256 q" by (simp add: collision_def)
  with assms(6) have "keccak256 q \<noteq> Some d" by simp
  with t assms(1,2,6) show ?thesis
    by (auto simp: computeCommitment_def split: option.splits)
qed

text \<open>
  The theorem at two inputs that differ in one string, the t1 IPFS reference, under a stand-in
  for \<open>keccak256\<close> that tells their packed texts apart.
\<close>

theorem computeCommitment_single_field_witness:
  "packCommitment 1 12 8 1 sampleT0 sampleT1 0 = Inr samplePacked
   \<and> computeCommitment (viemKeccak256 sampleWorld) 1 12 8 1 sampleT0 sampleT1 0 = Inr 520
   \<and> computeCommitment (viemKeccak256 sampleWorld) 1 12 8 1 sampleT0 (sampleT1\<lparr>evIpfsCid := ''Qm''\<rparr>) 0
       = Inr 524
   \<and> packCommitment 1 12 8 1 sampleT0 (sampleT1\<lparr>evIpfsCid := ''Qm''\<rparr>) 0 \<noteq> Inr samplePacked"
proof -
  have p: "packCommitment 1 12 8 1 sampleT0 sampleT1 0 = Inr samplePacked" by code_simp
  have dq: "computeCommitment (viemKeccak256 sampleWorld) 1 12 8 1 sampleT0 (sampleT1\<lparr>evIpfsCid := ''Qm''\<rparr>) 0
              = Inr 524"
    by code_simp
  then obtain q where q: "packCommitment 1 12 8 1 sampleT0 (sampleT1\<lparr>evIpfsCid := ''Qm''\<rparr>) 0 = Inr q"
    and kq: "viemKeccak256 sampleWorld q = Some 524"
    by (auto simp: computeCommitment_def split: sum.splits option.splits)
  have kp: "viemKeccak256 sampleWorld samplePacked = Some 520" by code_simp
  have n: "\<not> collision (viemKeccak256 sampleWorld) samplePacked q"
    by (simp add: collision_def kp kq)
  have d: "\<not> sameValue (commitmentValues 1 12 8 1 sampleT0 sampleT1 0 ! 13)
                        (commitmentValues 1 12 8 1 sampleT0 (sampleT1\<lparr>evIpfsCid := ''Qm''\<rparr>) 0 ! 13)"
    by code_simp
  have e: "\<forall>j<15. j \<noteq> 13 \<longrightarrow> commitmentValues 1 12 8 1 sampleT0 sampleT1 0 ! j
                               = commitmentValues 1 12 8 1 sampleT0 (sampleT1\<lparr>evIpfsCid := ''Qm''\<rparr>) 0 ! j"
    by (simp add: values_update)
  from computeCommitment_single_field[OF p q _ d e kp n] p q dq
  show ?thesis by auto
qed

text \<open>
  Two texts for the t0 CSV hash that differ in where \<open>0x\<close> stands, every other field
  unchanged: both inputs are accepted and have the same packed text, hence the same digest
  whatever \<open>keccak256\<close> is. And two inputs that differ in two neighbouring strings, the t0
  IPFS reference and the t1 CSV address, with the same packed text: a field that follows a
  string has no fixed position.
\<close>

theorem computeCommitment_same_digest_counterexample:
  "frontHash \<noteq> innerHash
   \<and> toLowerCase frontHash \<noteq> toLowerCase innerHash
   \<and> packCommitment 1 12 8 1 (sampleT0\<lparr>evCsvSha256 := frontHash\<rparr>) sampleT1 0 = Inr frontPacked
   \<and> packCommitment 1 12 8 1 (sampleT0\<lparr>evCsvSha256 := innerHash\<rparr>) sampleT1 0 = Inr frontPacked
   \<and> computeCommitment (viemKeccak256 sampleWorld) 1 12 8 1 (sampleT0\<lparr>evCsvSha256 := frontHash\<rparr>) sampleT1 0
       = Inr 520
   \<and> computeCommitment (viemKeccak256 sampleWorld) 1 12 8 1 (sampleT0\<lparr>evCsvSha256 := innerHash\<rparr>) sampleT1 0
       = Inr 520
   \<and> evIpfsCid sampleT0 = ''Qm'' \<and> evCsvUrl sampleT1 = ''''
   \<and> packCommitment 1 12 8 1 sampleT0 sampleT1 0 = Inr samplePacked
   \<and> packCommitment 1 12 8 1 (sampleT0\<lparr>evIpfsCid := ''Q''\<rparr>) (sampleT1\<lparr>evCsvUrl := ''m''\<rparr>) 0
       = Inr samplePacked
   \<and> computeCommitment (viemKeccak256 sampleWorld) 1 12 8 1 sampleT0 sampleT1 0 = Inr 520
   \<and> computeCommitment (viemKeccak256 sampleWorld) 1 12 8 1
         (sampleT0\<lparr>evIpfsCid := ''Q''\<rparr>) (sampleT1\<lparr>evCsvUrl := ''m''\<rparr>) 0 = Inr 520"
proof (intro conjI)
  show "frontHash \<noteq> innerHash" by code_simp
  show "toLowerCase frontHash \<noteq> toLowerCase innerHash" by code_simp
  show "packCommitment 1 12 8 1 (sampleT0\<lparr>evCsvSha256 := frontHash\<rparr>) sampleT1 0 = Inr frontPacked"
    by code_simp
  show "packCommitment 1 12 8 1 (sampleT0\<lparr>evCsvSha256 := innerHash\<rparr>) sampleT1 0 = Inr frontPacked"
    by code_simp
  show "computeCommitment (viemKeccak256 sampleWorld) 1 12 8 1 (sampleT0\<lparr>evCsvSha256 := frontHash\<rparr>) sampleT1 0
       = Inr 520"
    by code_simp
  show "computeCommitment (viemKeccak256 sampleWorld) 1 12 8 1 (sampleT0\<lparr>evCsvSha256 := innerHash\<rparr>) sampleT1 0
       = Inr 520"
    by code_simp
  show "evIpfsCid sampleT0 = ''Qm''" by code_simp
  show "evCsvUrl sampleT1 = ''''" by code_simp
  show "packCommitment 1 12 8 1 sampleT0 sampleT1 0 = Inr samplePacked" by code_simp
  show "packCommitment 1 12 8 1 (sampleT0\<lparr>evIpfsCid := ''Q''\<rparr>) (sampleT1\<lparr>evCsvUrl := ''m''\<rparr>) 0
       = Inr samplePacked"
    by code_simp
  show "computeCommitment (viemKeccak256 sampleWorld) 1 12 8 1 sampleT0 sampleT1 0 = Inr 520"
    by code_simp
  show "computeCommitment (viemKeccak256 sampleWorld) 1 12 8 1
         (sampleT0\<lparr>evIpfsCid := ''Q''\<rparr>) (sampleT1\<lparr>evCsvUrl := ''m''\<rparr>) 0 = Inr 520"
    by code_simp
qed

section \<open>Properties of the store and the schema guard\<close>

lemma getMarket_marketId: "getMarket db mid = Some m \<Longrightarrow> m_marketId m = mid"
  by (auto simp: getMarket_def find_Some_iff)

lemma upsert_text_fields:
  "t0Rank new = None \<Longrightarrow> t1Rank new = None \<Longrightarrow> outcome new = None \<Longrightarrow>
   upsertResolution db new =
     Inr (db\<lparr>resolutions := (resolutions db)(marketId new \<mapsto>
            mergeResolution (case resolutions db (marketId new) of
                               None \<Rightarrow> emptyResolution (marketId new) | Some old \<Rightarrow> old) new)\<rparr>)"
  by (simp add: upsertResolution_def)

lemma upsert_Inr:
  "upsertResolution db new = Inr db' \<Longrightarrow>
     db' = db\<lparr>resolutions := (resolutions db)(marketId new \<mapsto>
            mergeResolution (case resolutions db (marketId new) of
                               None \<Rightarrow> emptyResolution (marketId new) | Some old \<Rightarrow> old) new)\<rparr>"
  by (auto simp: upsertResolution_def split: if_splits)

lemma upsert_Inl: "upsertResolution db new = Inl e \<Longrightarrow> e = DbOutOfRange"
  by (auto simp: upsertResolution_def split: if_splits)

lemma itemValid_asItem: "itemValid x = Inr True \<Longrightarrow> \<exists>item. asItem x = Some item"
proof (cases x)
  case (JObj f)
  assume "itemValid x = Inr True"
  with JObj have v: "isNumber (map_of f ''rank'')" "isString (map_of f ''title'')"
    "isString (map_of f ''artist'')" "isNumber (map_of f ''streams'')"
    "isString (map_of f ''trackId'')" "isString (map_of f ''spotifyUrl'')"
    by simp_all
  have n: "\<And>v. isNumber v \<Longrightarrow> \<exists>n. numberOf v = Some n"
    by (erule isNumber.elims) simp
  have s: "\<And>v. isString v \<Longrightarrow> \<exists>s. stringOf v = Some s"
    by (erule isString.elims) simp
  from n[OF v(1)] s[OF v(2)] s[OF v(3)] n[OF v(4)] s[OF v(5)] s[OF v(6)] JObj
  show ?thesis by auto
qed simp_all

lemma everyItem_asItems: "everyItem xs = Inr True \<Longrightarrow> \<exists>its. asItems xs = Some its"
proof (induction xs)
  case Nil then show ?case by simp
next
  case (Cons x xs)
  from Cons.prems have "itemValid x = Inr True" "everyItem xs = Inr True"
    by (auto split: sum.splits if_splits)
  with Cons.IH itemValid_asItem[of x] show ?case by auto
qed

text \<open>
  A value that passes the guard has every field of the interface, so the last branch of
  \<open>prepareRead\<close> is never taken.
\<close>

lemma validate_asSnapshot:
  "validateSnapshotSchema j = Inr True \<Longrightarrow> \<exists>doc. asSnapshot j = Some doc"
proof (cases j)
  case (JObj f)
  assume a: "validateSnapshotSchema j = Inr True"
  with JObj have v: "map_of f ''schema'' = Some (JStr ''hitcastor.spotify.top100.v1'')"
    "isString (map_of f ''dateUTC'')" "isString (map_of f ''region'')"
    "isString (map_of f ''provider'')" "isNumber (map_of f ''listLength'')"
    by (simp_all split: if_splits)
  from a JObj v obtain xs where x: "map_of f ''items'' = Some (JArr xs)" "everyItem xs = Inr True"
    by (auto split: option.splits json.splits)
  have n: "\<And>v. isNumber v \<Longrightarrow> \<exists>n. numberOf v = Some n"
    by (erule isNumber.elims) simp
  have s: "\<And>v. isString v \<Longrightarrow> \<exists>s. stringOf v = Some s"
    by (erule isString.elims) simp
  from s[OF v(2)] s[OF v(3)] s[OF v(4)] n[OF v(5)] everyItem_asItems[OF x(2)] v(1) x(1) JObj
  show ?thesis by auto
qed simp_all

section \<open>Properties of jobs/prepareResolve.ts\<close>

lemma prepareRead_cong:
  assumes "markets db2 = markets db" and "snapshots db2 = snapshots db"
  shows "prepareRead w db2 job = prepareRead w db job"
proof -
  have m: "getMarket db2 = getMarket db"
    by (rule ext) (simp add: getMarket_def assms)
  have s: "getSnapshotByDate db2 = getSnapshotByDate db"
    by (intro ext) (simp add: getSnapshotByDate_def assms)
  show ?thesis unfolding prepareRead_def m s ..
qed

lemma prepareRead_market:
  "prepareRead w db job = Inr (market, s0, s1, r0, r1) \<Longrightarrow>
     getMarket db (jobMarketId job) = Some market"
  by (auto simp: prepareRead_def Let_def split: option.splits sum.splits if_splits prod.splits)

lemma merge_twice: "mergeResolution (mergeResolution old new) new = mergeResolution old new"
  by (simp add: mergeResolution_def orElse_def split: option.splits)

lemma prepareResolveJob_Inr:
  assumes "prepareResolveJob w tr db job = (Inr res, tr', db')"
  shows "\<exists>market s0 s1 r0 r1.
           prepareRead w db job = Inr (market, s0, s1, r0, r1)
           \<and> upsertResolution db ((emptyResolution (jobMarketId job))
                 \<lparr>t0SnapshotId := Some (snapId s0), t1SnapshotId := Some (snapId s1),
                  t0Rank := Some r0, t1Rank := Some r1,
                  outcome := Some (computeOutcome r0 r1)\<rparr>) = Inr db'
           \<and> res = Prepared (jobMarketId job) r0 r1 (computeOutcome r0 r1) (snapId s0) (snapId s1)
           \<and> tr' = tr"
proof -
  from assms obtain market s0 s1 r0 r1 where
    r: "prepareRead w db job = Inr (market, s0, s1, r0, r1)"
    by (auto simp: prepareResolveJob_def prepareBody_def split: sum.splits prod.splits)
  have "m_marketId market = jobMarketId job"
    using prepareRead_market[OF r] by (rule getMarket_marketId)
  with assms r show ?thesis
    by (auto simp: prepareResolveJob_def prepareBody_def Let_def split: sum.splits prod.splits)
qed

lemma prepare_ignores_stored:
  assumes "prepareResolveJob w tr db job = (Inr res, tr', db')"
  shows "fst (prepareResolveJob w tr (db\<lparr>resolutions := rs\<rparr>) job) = Inr res"
proof -
  from prepareResolveJob_Inr[OF assms] obtain market s0 s1 r0 r1 where
    r: "prepareRead w db job = Inr (market, s0, s1, r0, r1)"
    and u: "upsertResolution db ((emptyResolution (jobMarketId job))
                 \<lparr>t0SnapshotId := Some (snapId s0), t1SnapshotId := Some (snapId s1),
                  t0Rank := Some r0, t1Rank := Some r1,
                  outcome := Some (computeOutcome r0 r1)\<rparr>) = Inr db'"
    and p: "res = Prepared (jobMarketId job) r0 r1 (computeOutcome r0 r1) (snapId s0) (snapId s1)"
    by blast
  have mm: "m_marketId market = jobMarketId job"
    using prepareRead_market[OF r] by (rule getMarket_marketId)
  have r2: "prepareRead w (db\<lparr>resolutions := rs\<rparr>) job = Inr (market, s0, s1, r0, r1)"
    using r prepareRead_cong[of "db\<lparr>resolutions := rs\<rparr>" db w job] by simp
  from u have f: "fitsSmallint (Some r0) \<and> fitsSmallint (Some r1) \<and> fitsSmallint (Some (computeOutcome r0 r1))"
    by (auto simp: upsertResolution_def emptyResolution_def split: if_splits)
  show ?thesis
    using r2 mm f p
    by (simp add: prepareResolveJob_def prepareBody_def Let_def upsertResolution_def emptyResolution_def)
qed

lemma prepare_repeat:
  assumes "prepareResolveJob w tr db job = (Inr res, tr', db')"
  shows "prepareResolveJob w tr db' job = (Inr res, tr, db')"
proof -
  from prepareResolveJob_Inr[OF assms] obtain market s0 s1 r0 r1 where
    r: "prepareRead w db job = Inr (market, s0, s1, r0, r1)"
    and u: "upsertResolution db ((emptyResolution (jobMarketId job))
                 \<lparr>t0SnapshotId := Some (snapId s0), t1SnapshotId := Some (snapId s1),
                  t0Rank := Some r0, t1Rank := Some r1,
                  outcome := Some (computeOutcome r0 r1)\<rparr>) = Inr db'"
    and p: "res = Prepared (jobMarketId job) r0 r1 (computeOutcome r0 r1) (snapId s0) (snapId s1)"
    by blast
  let ?new = "(emptyResolution (jobMarketId job))
                 \<lparr>t0SnapshotId := Some (snapId s0), t1SnapshotId := Some (snapId s1),
                  t0Rank := Some r0, t1Rank := Some r1,
                  outcome := Some (computeOutcome r0 r1)\<rparr>"
  have k: "marketId ?new = jobMarketId job" by (simp add: emptyResolution_def)
  have mm: "m_marketId market = jobMarketId job"
    using prepareRead_market[OF r] by (rule getMarket_marketId)
  note d = upsert_Inr[OF u, unfolded k]
  have r2: "prepareRead w db' job = Inr (market, s0, s1, r0, r1)"
    using r prepareRead_cong[of db' db w job] d by simp
  from u have f: "fitsSmallint (t0Rank ?new) \<and> fitsSmallint (t1Rank ?new) \<and> fitsSmallint (outcome ?new)"
    by (auto simp: upsertResolution_def split: if_splits)
  have "upsertResolution db' ?new = Inr db'"
  proof -
    have "resolutions db' (jobMarketId job) = Some (mergeResolution
        (case resolutions db (jobMarketId job) of None \<Rightarrow> emptyResolution (jobMarketId job) | Some old \<Rightarrow> old) ?new)"
      by (subst d) simp
    then have "upsertResolution db' ?new = Inr (db'\<lparr>resolutions := (resolutions db')(jobMarketId job \<mapsto>
         mergeResolution (case resolutions db (jobMarketId job) of None \<Rightarrow> emptyResolution (jobMarketId job) | Some old \<Rightarrow> old) ?new)\<rparr>)"
      using f k by (simp add: upsertResolution_def merge_twice)
    also have "\<dots> = Inr db'"
      by (subst (1 2 3) d) simp
    finally show ?thesis .
  qed
  with r2 mm p show ?thesis
    by (simp add: prepareResolveJob_def prepareBody_def Let_def)
qed

lemma prepare_stored_row:
  assumes "prepareResolveJob w tr db job = (Inr res, tr', db')"
  shows "\<exists>market (s0::Snapshot) (s1::Snapshot) r0 r1 row.
           res = Prepared (jobMarketId job) r0 r1 (computeOutcome r0 r1) (snapId s0) (snapId s1)
           \<and> getMarket db' (jobMarketId job) = Some market
           \<and> getResolution db' (jobMarketId job) = Some row
           \<and> t0SnapshotId row = Some (snapId s0) \<and> t1SnapshotId row = Some (snapId s1)
           \<and> t0Rank row = Some r0 \<and> t1Rank row = Some r1
           \<and> outcome row = Some (computeOutcome r0 r1)
           \<and> (\<forall>old. getResolution db (jobMarketId job) = Some old \<longrightarrow>
                  commitTx row = commitTx old \<and> committedAt row = committedAt old
                  \<and> disputeUntil row = disputeUntil old \<and> finalizeTx row = finalizeTx old
                  \<and> finalizedAt row = finalizedAt old)"
proof -
  from prepareResolveJob_Inr[OF assms] obtain market s0 s1 r0 r1 where
    r: "prepareRead w db job = Inr (market, s0, s1, r0, r1)"
    and u: "upsertResolution db ((emptyResolution (jobMarketId job))
                 \<lparr>t0SnapshotId := Some (snapId s0), t1SnapshotId := Some (snapId s1),
                  t0Rank := Some r0, t1Rank := Some r1,
                  outcome := Some (computeOutcome r0 r1)\<rparr>) = Inr db'"
    and p: "res = Prepared (jobMarketId job) r0 r1 (computeOutcome r0 r1) (snapId s0) (snapId s1)"
    by blast
  let ?new = "(emptyResolution (jobMarketId job))
                 \<lparr>t0SnapshotId := Some (snapId s0), t1SnapshotId := Some (snapId s1),
                  t0Rank := Some r0, t1Rank := Some r1,
                  outcome := Some (computeOutcome r0 r1)\<rparr>"
  let ?old = "case resolutions db (jobMarketId job) of
                None \<Rightarrow> emptyResolution (jobMarketId job) | Some old \<Rightarrow> old"
  have k: "marketId ?new = jobMarketId job" by (simp add: emptyResolution_def)
  note d = upsert_Inr[OF u, unfolded k]
  have m: "getMarket db' (jobMarketId job) = Some market"
    using prepareRead_market[OF r] by (subst d) (simp add: getMarket_def)
  have g: "getResolution db' (jobMarketId job) = Some (mergeResolution ?old ?new)"
    by (subst d) (simp add: getResolution_def)
  have f: "t0SnapshotId (mergeResolution ?old ?new) = Some (snapId s0)"
    "t1SnapshotId (mergeResolution ?old ?new) = Some (snapId s1)"
    "t0Rank (mergeResolution ?old ?new) = Some r0" "t1Rank (mergeResolution ?old ?new) = Some r1"
    "outcome (mergeResolution ?old ?new) = Some (computeOutcome r0 r1)"
    by (simp_all add: mergeResolution_def emptyResolution_def orElse_def)
  have o: "\<forall>old. getResolution db (jobMarketId job) = Some old \<longrightarrow>
                  commitTx (mergeResolution ?old ?new) = commitTx old
                  \<and> committedAt (mergeResolution ?old ?new) = committedAt old
                  \<and> disputeUntil (mergeResolution ?old ?new) = disputeUntil old
                  \<and> finalizeTx (mergeResolution ?old ?new) = finalizeTx old
                  \<and> finalizedAt (mergeResolution ?old ?new) = finalizedAt old"
    by (simp add: getResolution_def mergeResolution_def emptyResolution_def orElse_def)
  show ?thesis
    apply (rule exI[of _ market], rule exI[of _ s0], rule exI[of _ s1])
    apply (rule exI[of _ r0], rule exI[of _ r1])
    apply (rule exI[of _ "mergeResolution ?old ?new"])
    apply (intro conjI p m g f)
    using o apply blast
    done
qed

text \<open>The sample data, evaluated.\<close>

lemma sample_market:
  "getMarket freshDb 1 = Some sampleMarket" "getMarket earlierDb 1 = Some sampleMarket"
  "getMarket committedDb 1 = Some sampleMarket"
  by (simp_all add: getMarket_def freshDb_def earlierDb_def committedDb_def sampleMarket_def)

lemma sample_resolution:
  "getResolution freshDb 1 = None" "getResolution earlierDb 1 = Some earlierResolution"
  "getResolution committedDb 1 = Some committedResolution"
  by (simp_all add: getResolution_def freshDb_def earlierDb_def committedDb_def)

lemma sample_snapshotFor:
  "snapshotFor committedDb (Some 1) = Some snapT0" "snapshotFor committedDb (Some 2) = Some snapT1"
  by (simp_all add: snapshotFor_def getSnapshot_def committedDb_def sampleSnapshots_def
      snapT0_def snapT1_def)

lemma sample_byDate:
  "getSnapshotByDate freshDb ''2024-01-01'' ''global'' = Some snapT0"
  "getSnapshotByDate freshDb ''2024-01-08'' ''global'' = Some snapT1"
  by (simp_all add: getSnapshotByDate_def freshDb_def sampleSnapshots_def snapT0_def snapT1_def)

lemma sample_fetch:
  "fetchAndVerifyHash (nodeDigestHex sampleWorld) (httpFetch sampleWorld)
     (jsonUrl snapT0) (jsonSha256 snapT0) = Inr ''t0 chart''"
  "fetchAndVerifyHash (nodeDigestHex sampleWorld) (httpFetch sampleWorld)
     (jsonUrl snapT1) (jsonSha256 snapT1) = Inr ''t1 chart''"
  by (simp_all add: fetchAndVerifyHash_def verifyHash_def sha256_def toLowerCase_def lowerChar_def
      sampleWorld_def snapT0_def snapT1_def)

lemma sample_docs:
  "validateSnapshotSchema (chartDoc d r) = Inr True"
  "asSnapshot (chartDoc d r) =
     Some \<lparr>schema = ''hitcastor.spotify.top100.v1'', dateUTC = d, chartRegion = ''global'',
           provider = ''spotify'', listLength = 1,
           items = [\<lparr>rank = r, title = ''Song'', artist = ''Artist'', streams = 1000,
                     trackId = ''spotify:track:abc'',
                     spotifyUrl = ''https://open.spotify.com/track/abc''\<rparr>]\<rparr>"
  by (simp_all add: chartDoc_def)

lemma sample_rank:
  "extractRankBySongId
     \<lparr>schema = ''hitcastor.spotify.top100.v1'', dateUTC = d, chartRegion = ''global'',
           provider = ''spotify'', listLength = 1,
           items = [\<lparr>rank = r, title = ''Song'', artist = ''Artist'', streams = 1000,
                     trackId = ''spotify:track:abc'',
                     spotifyUrl = ''https://open.spotify.com/track/abc''\<rparr>]\<rparr> ''abc'' = r"
  by (simp add: extractRankBySongId_def trackPrefix_def)

lemma sample_prepareRead:
  "prepareRead sampleWorld freshDb sampleJob = Inr (sampleMarket, snapT0, snapT1, 12, 8)"
proof -
  have p: "jsonParse sampleWorld ''t0 chart'' = Some (chartDoc ''2024-01-01'' 12)"
    "jsonParse sampleWorld ''t1 chart'' = Some (chartDoc ''2024-01-08'' 8)"
    by (simp_all add: sampleWorld_def)
  have j: "jobMarketId sampleJob = 1" "t0Date sampleJob = ''2024-01-01''"
    "t1Date sampleJob = ''2024-01-08''" "jobRegion sampleJob = None"
    by (simp_all add: sampleJob_def)
  have s: "songId sampleMarket = ''abc''" by (simp add: sampleMarket_def)
  show ?thesis
    unfolding prepareRead_def
    by (simp add: j sample_market sample_byDate sample_fetch p bothValid_def sample_docs sample_rank s)
qed

lemma sample_prepare:
  assumes "markets db = [sampleMarket]" and "snapshots db = sampleSnapshots"
  shows "prepareResolveJob sampleWorld tr db sampleJob =
     (Inr (Prepared 1 12 8 1 1 2), tr,
      db\<lparr>resolutions := (resolutions db)(1 \<mapsto>
        mergeResolution (case resolutions db 1 of None \<Rightarrow> emptyResolution 1 | Some old \<Rightarrow> old)
          ((emptyResolution 1)\<lparr>t0SnapshotId := Some 1, t1SnapshotId := Some 2,
             t0Rank := Some 12, t1Rank := Some 8, outcome := Some 1\<rparr>))\<rparr>)"
proof -
  have r: "prepareRead sampleWorld db sampleJob = Inr (sampleMarket, snapT0, snapT1, 12, 8)"
    using prepareRead_cong[of db freshDb sampleWorld sampleJob] assms sample_prepareRead
    by (simp add: freshDb_def)
  have i: "m_marketId sampleMarket = 1" "snapId snapT0 = 1" "snapId snapT1 = 2"
    "jobMarketId sampleJob = 1"
    by (simp_all add: sampleMarket_def snapT0_def snapT1_def sampleJob_def)
  have c: "computeOutcome 12 8 = 1" by (simp add: computeOutcome_def)
  show ?thesis
    by (cases "resolutions db 1")
       (simp_all add: prepareResolveJob_def prepareBody_def r i c upsertResolution_def
          emptyResolution_def)
qed

lemma sample_dbs:
  "markets freshDb = [sampleMarket]" "snapshots freshDb = sampleSnapshots"
  "markets earlierDb = [sampleMarket]" "snapshots earlierDb = sampleSnapshots"
  by (simp_all add: freshDb_def earlierDb_def)

text \<open>
  C3. \<open>prepareResolveJob\<close> has no check for a resolution that is already there. A run
  that succeeds stores the snapshot ids, the ranks and the outcome that this run computed
  and keeps the commit and finalize columns of an existing row; its result is the same for
  every content of the resolutions table, and it sends no alert. A second run with the same
  job data on the store it leaves gives the same result and leaves that store as it is.
\<close>

theorem prepare_recomputes:
  assumes "prepareResolveJob w tr db job = (Inr res, tr', db')"
  shows "(\<exists>r0 r1 i0 i1 row.
            res = Prepared (jobMarketId job) r0 r1 (computeOutcome r0 r1) i0 i1
            \<and> getResolution db' (jobMarketId job) = Some row
            \<and> t0SnapshotId row = Some i0 \<and> t1SnapshotId row = Some i1
            \<and> t0Rank row = Some r0 \<and> t1Rank row = Some r1
            \<and> outcome row = Some (computeOutcome r0 r1)
            \<and> (\<forall>old. getResolution db (jobMarketId job) = Some old \<longrightarrow>
                   commitTx row = commitTx old \<and> committedAt row = committedAt old
                   \<and> disputeUntil row = disputeUntil old \<and> finalizeTx row = finalizeTx old
                   \<and> finalizedAt row = finalizedAt old))
       \<and> tr' = tr
       \<and> (\<forall>stored. fst (prepareResolveJob w tr (db\<lparr>resolutions := stored\<rparr>) job) = Inr res)
       \<and> prepareResolveJob w tr db' job = (Inr res, tr, db')"
proof (intro conjI allI)
  from prepare_stored_row[OF assms]
  show "\<exists>r0 r1 i0 i1 row.
            res = Prepared (jobMarketId job) r0 r1 (computeOutcome r0 r1) i0 i1
            \<and> getResolution db' (jobMarketId job) = Some row
            \<and> t0SnapshotId row = Some i0 \<and> t1SnapshotId row = Some i1
            \<and> t0Rank row = Some r0 \<and> t1Rank row = Some r1
            \<and> outcome row = Some (computeOutcome r0 r1)
            \<and> (\<forall>old. getResolution db (jobMarketId job) = Some old \<longrightarrow>
                   commitTx row = commitTx old \<and> committedAt row = committedAt old
                   \<and> disputeUntil row = disputeUntil old \<and> finalizeTx row = finalizeTx old
                   \<and> finalizedAt row = finalizedAt old)"
    by blast
next
  from prepareResolveJob_Inr[OF assms] show "tr' = tr" by blast
next
  fix stored
  show "fst (prepareResolveJob w tr (db\<lparr>resolutions := stored\<rparr>) job) = Inr res"
    using assms by (rule prepare_ignores_stored)
next
  show "prepareResolveJob w tr db' job = (Inr res, tr, db')"
    using assms by (rule prepare_repeat)
qed

text \<open>The theorem at the scenario, on a store without a resolution.\<close>

theorem prepare_recomputes_witness:
  "fst (prepareResolveJob sampleWorld [] freshDb sampleJob) = Inr (Prepared 1 12 8 1 1 2)
   \<and> (case prepareResolveJob sampleWorld [] freshDb sampleJob of
        (res, tr', db') \<Rightarrow>
          prepareResolveJob sampleWorld [] db' sampleJob = (res, [], db')
          \<and> map_option outcome (getResolution db' 1) = Some (Some (computeOutcome 12 8)))"
proof -
  obtain db' where p: "prepareResolveJob sampleWorld [] freshDb sampleJob
      = (Inr (Prepared 1 12 8 1 1 2), [], db')"
    using sample_prepare[OF sample_dbs(1,2), of "[]"] by blast
  have j: "jobMarketId sampleJob = 1" by (simp add: sampleJob_def)
  from prepare_recomputes[OF p] j
  have "prepareResolveJob sampleWorld [] db' sampleJob = (Inr (Prepared 1 12 8 1 1 2), [], db')"
    and "map_option outcome (getResolution db' 1) = Some (Some (computeOutcome 12 8))"
    by auto
  with p show ?thesis by simp
qed

text \<open>
  A market already prepared with outcome NO and committed: prepare run on the evidence of
  the scenario succeeds and replaces the stored t1 rank and outcome, the commit reference
  staying in place.
\<close>

theorem prepare_overwrites_counterexample:
  "map_option outcome (getResolution earlierDb 1) = Some (Some 2)
   \<and> map_option commitTx (getResolution earlierDb 1) = Some (Some ''0xc0'')
   \<and> (case prepareResolveJob sampleWorld [] earlierDb sampleJob of
        (res, tr, db') \<Rightarrow>
          res = Inr (Prepared 1 12 8 1 1 2)
          \<and> map_option t1Rank (getResolution db' 1) = Some (Some 8)
          \<and> map_option outcome (getResolution db' 1) = Some (Some 1)
          \<and> map_option commitTx (getResolution db' 1) = Some (Some ''0xc0''))"
proof -
  note p = sample_prepare[OF sample_dbs(3,4), of "[]"]
  have e: "resolutions earlierDb 1 = Some earlierResolution" by (simp add: earlierDb_def)
  show ?thesis
    unfolding p
    by (simp add: getResolution_def e earlierResolution_def mergeResolution_def
        emptyResolution_def orElse_def)
qed

section \<open>Properties of jobs/commitResolve.ts\<close>

lemma encode_Inl: "encode t v = Inl e \<Longrightarrow> e = EncodingError"
  by (cases "(t, v)" rule: encode.cases) (auto split: if_splits)

lemma encodeEach_Inl: "encodeEach ts vs = Inl e \<Longrightarrow> e = EncodingError"
  by (induction ts vs rule: encodeEach.induct) (auto split: sum.splits dest: encode_Inl)

lemma encodePacked_Inl: "encodePacked ts vs = Inl e \<Longrightarrow> e = EncodingError"
  by (auto simp: encodePacked_def split: sum.splits dest: encodeEach_Inl)

lemma computeCommitment_Inl:
  "computeCommitment k m r0 r1 oc e0 e1 n = Inl e \<Longrightarrow> e = EncodingError"
  by (auto simp: computeCommitment_def packCommitment_def split: sum.splits option.splits
      dest: encodePacked_Inl)

lemma chainResult_Inl: "chainResult r = Inl e \<Longrightarrow> \<exists>message. e = ChainError message"
  by (auto simp: chainResult_def split: sum.splits)

lemma sendCommitResolve_Inl:
  "sendCommitResolve w tr mid c ev = (Inl e, tr') \<Longrightarrow> \<exists>message. e = ChainError message"
  by (auto simp: sendCommitResolve_def split: if_splits dest: chainResult_Inl)

lemma commitBody_committed:
  assumes "getResolution db mid = Some r" and "truthyString (commitTx r)"
  shows "commitBody w tr db nowMs nowDate mid =
     (if getMarket db mid = None then (Inl (MarketNotFound mid), tr, db)
      else if \<not> truthyNumber (outcome r) then (Inl (ResolutionNotPrepared mid), tr, db)
      else (Inr (AlreadyCommitted mid (the (commitTx r))), tr, db))"
  using assms by (simp add: commitBody_def split: option.splits)

lemma commitBody_prepared:
  assumes "getMarket db mid = Some market" and "getResolution db mid = Some r"
    and "truthyNumber (outcome r)"
  shows "fst (commitBody w tr db nowMs nowDate mid) \<noteq> Inl (ResolutionNotPrepared mid)"
proof (cases "truthyString (commitTx r)")
  case True
  with assms show ?thesis by (simp add: commitBody_def)
next
  case False
  show ?thesis
  proof
    assume a: "fst (commitBody w tr db nowMs nowDate mid) = Inl (ResolutionNotPrepared mid)"
    then show False
      using assms False
      by (auto simp: commitBody_def Let_def getDisputeWindow_def
          split: option.splits sum.splits prod.splits
          dest!: computeCommitment_Inl sendCommitResolve_Inl chainResult_Inl upsert_Inl)
  qed
qed

lemma commitResolveJob_prepared:
  assumes "getMarket db mid = Some market" and "getResolution db mid = Some r"
    and "truthyNumber (outcome r)"
  shows "fst (commitResolveJob w tr db nowMs nowDate mid) \<noteq> Inl (ResolutionNotPrepared mid)"
  using commitBody_prepared[OF assms, of w tr nowMs nowDate]
  by (cases "commitBody w tr db nowMs nowDate mid")
     (auto simp: commitResolveJob_def split: sum.splits)

lemma commitBody_no_resolution:
  "getResolution db mid = None \<Longrightarrow> \<exists>e. commitBody w tr db nowMs nowDate mid = (Inl e, tr, db)"
  by (simp add: commitBody_def split: option.splits)

lemma commit_committed_trace:
  assumes "getResolution db mid = Some r" and "truthyString (commitTx r)"
  shows "\<exists>res alerts. commitResolveJob w tr db nowMs nowDate mid = (res, tr @ alerts, db)
                      \<and> chainWrites alerts = []"
  using assms by (simp add: commitResolveJob_def commitBody_committed chainWrites_def)

text \<open>
  C4. When the resolution that \<open>commitResolveJob\<close> reads has a commit transaction
  reference, the job writes nothing to the chain and leaves the store as it is, whatever
  else the row holds. With the market on record and the outcome set, the two guards that
  come first, the job returns the stored reference and sends nothing at all. The contract
  write lies behind the check of the field: a run that wrote to the chain had read a
  resolution without a commit reference.
\<close>

theorem commit_already_committed:
  "(getResolution db mid = Some r \<and> truthyString (commitTx r)
      \<longrightarrow> (\<exists>res alerts. commitResolveJob w tr db nowMs nowDate mid = (res, tr @ alerts, db)
                         \<and> chainWrites alerts = []))
   \<and> (getResolution db mid = Some r \<and> truthyString (commitTx r)
        \<and> getMarket db mid = Some market \<and> truthyNumber (outcome r)
      \<longrightarrow> commitResolveJob w tr db nowMs nowDate mid
            = (Inr (AlreadyCommitted mid (the (commitTx r))), tr, db))
   \<and> (chainWrites (fst (snd (commitResolveJob w tr db nowMs nowDate mid))) \<noteq> chainWrites tr
      \<longrightarrow> (\<exists>unset. getResolution db mid = Some unset \<and> \<not> truthyString (commitTx unset)))"
proof (intro conjI impI)
  assume a: "getResolution db mid = Some r \<and> truthyString (commitTx r)"
  then show "\<exists>res alerts. commitResolveJob w tr db nowMs nowDate mid = (res, tr @ alerts, db)
                         \<and> chainWrites alerts = []"
    using commit_committed_trace by blast
next
  assume "getResolution db mid = Some r \<and> truthyString (commitTx r)
        \<and> getMarket db mid = Some market \<and> truthyNumber (outcome r)"
  then show "commitResolveJob w tr db nowMs nowDate mid
            = (Inr (AlreadyCommitted mid (the (commitTx r))), tr, db)"
    by (simp add: commitResolveJob_def commitBody_committed)
next
  assume c: "chainWrites (fst (snd (commitResolveJob w tr db nowMs nowDate mid))) \<noteq> chainWrites tr"
  show "\<exists>unset. getResolution db mid = Some unset \<and> \<not> truthyString (commitTx unset)"
  proof (cases "getResolution db mid")
    case None
    from commitBody_no_resolution[OF None, of w tr nowMs nowDate] c show ?thesis
      by (auto simp: commitResolveJob_def chainWrites_def)
  next
    case (Some found)
    show ?thesis
    proof (cases "truthyString (commitTx found)")
      case True
      from commit_committed_trace[OF Some True, of w tr nowMs nowDate] c show ?thesis
        by (auto simp: chainWrites_def)
    next
      case False
      with Some show ?thesis by blast
    qed
  qed
qed

text \<open>The theorem at the committed resolution of the scenario.\<close>

theorem commit_already_committed_witness:
  "getResolution committedDb 1 = Some committedResolution
   \<and> truthyString (commitTx committedResolution)
   \<and> getMarket committedDb 1 = Some sampleMarket
   \<and> truthyNumber (outcome committedResolution)
   \<and> commitResolveJob sampleWorld [] committedDb 1000 1001 1
       = (Inr (AlreadyCommitted 1 ''0xc1''), [], committedDb)"
proof -
  have c: "truthyString (commitTx committedResolution)" "truthyNumber (outcome committedResolution)"
    "the (commitTx committedResolution) = ''0xc1''"
    by (simp_all add: committedResolution_def)
  from commit_already_committed[of committedDb 1 committedResolution sampleWorld "[]" 1000 1001 sampleMarket]
    sample_resolution(3) sample_market(3) c
  show ?thesis by simp
qed

text \<open>
  C9. \<open>computeOutcome\<close> returns 1 or 2, never 0. So the outcome that a successful
  \<open>prepareResolveJob\<close> stores is truthy, and \<open>commitResolveJob\<close> on the store it
  leaves does not fail with the resolution-not-prepared error, in any world and at any time.
\<close>

theorem outcome_never_falsy:
  "computeOutcome a b \<noteq> 0
   \<and> (computeOutcome a b = 1 \<longleftrightarrow> b < a) \<and> (computeOutcome a b = 2 \<longleftrightarrow> \<not> b < a)
   \<and> truthyNumber (Some (computeOutcome a b))
   \<and> (prepareResolveJob w tr db job = (Inr res, tr', db')
        \<longrightarrow> (\<exists>row. getResolution db' (jobMarketId job) = Some row
                     \<and> truthyNumber (outcome row)
                     \<and> (outcome row = Some 1 \<or> outcome row = Some 2))
            \<and> fst (commitResolveJob w2 tr2 db' nowMs nowDate (jobMarketId job))
                 \<noteq> Inl (ResolutionNotPrepared (jobMarketId job)))"
proof (intro conjI impI)
  assume a: "prepareResolveJob w tr db job = (Inr res, tr', db')"
  from prepare_stored_row[OF a] obtain market r0 r1 row where
    m: "getMarket db' (jobMarketId job) = Some market"
    and g: "getResolution db' (jobMarketId job) = Some row"
    and o: "outcome row = Some (computeOutcome r0 r1)"
    by blast
  have t: "truthyNumber (outcome row)" "outcome row = Some 1 \<or> outcome row = Some 2"
    using o by (simp_all add: computeOutcome_def)
  with g show "\<exists>row. getResolution db' (jobMarketId job) = Some row
                     \<and> truthyNumber (outcome row)
                     \<and> (outcome row = Some 1 \<or> outcome row = Some 2)"
    by blast
  show "fst (commitResolveJob w2 tr2 db' nowMs nowDate (jobMarketId job))
                 \<noteq> Inl (ResolutionNotPrepared (jobMarketId job))"
    using m g t(1) by (rule commitResolveJob_prepared)
qed (simp_all add: computeOutcome_def)

text \<open>The theorem at the scenario.\<close>

theorem outcome_never_falsy_witness:
  "fst (prepareResolveJob sampleWorld [] freshDb sampleJob) = Inr (Prepared 1 12 8 1 1 2)
   \<and> (case prepareResolveJob sampleWorld [] freshDb sampleJob of
        (res, tr', db') \<Rightarrow>
          map_option (\<lambda>row. truthyNumber (outcome row)) (getResolution db' 1) = Some True
          \<and> fst (commitResolveJob sampleWorld [] db' 1000 1001 1) \<noteq> Inl (ResolutionNotPrepared 1))"
proof -
  obtain db' where p: "prepareResolveJob sampleWorld [] freshDb sampleJob
      = (Inr (Prepared 1 12 8 1 1 2), [], db')"
    using sample_prepare[OF sample_dbs(1,2), of "[]"] by blast
  have j: "jobMarketId sampleJob = 1" by (simp add: sampleJob_def)
  from outcome_never_falsy[of 12 8 sampleWorld "[]" freshDb sampleJob "Prepared 1 12 8 1 1 2" "[]" db'
      sampleWorld "[]" 1000 1001] p j
  have "\<exists>row. getResolution db' 1 = Some row \<and> truthyNumber (outcome row)"
    and "fst (commitResolveJob sampleWorld [] db' 1000 1001 1) \<noteq> Inl (ResolutionNotPrepared 1)"
    by auto
  with p show ?thesis by auto
qed

section \<open>Properties of jobs/finalizeResolve.ts\<close>

lemma finalizeCheck_committed:
  assumes "getMarket db mid = Some market" and "getResolution db mid = Some r"
    and "truthyString (commitTx r)" and "disputeUntil r = Some until"
    and "\<not> truthyString (finalizeTx r)"
  shows "finalizeCheck db now mid =
     (if now < until then Inl (DisputeWindowActive until)
      else case (snapshotFor db (t0SnapshotId r), snapshotFor db (t1SnapshotId r)) of
        (Some s0, Some s1) \<Rightarrow>
          Inr (Inr \<lparr>callMarket = market, callOutcome = outcome r,
                    callT0Rank = t0Rank r, callT1Rank = t1Rank r,
                    callT0Evidence = evidenceOf s0, callT1Evidence = evidenceOf s1\<rparr>)
      | _ \<Rightarrow> Inl (MissingSnapshotEvidence mid))"
  using assms by (simp add: finalizeCheck_def)

lemma finalizeSend_trace:
  "finalizeSend w tr call = (res, tr') \<Longrightarrow>
     tr' = tr \<or> (\<exists>oc r0 r1. tr' = tr @ [FinalizeSent (m_marketId (callMarket call)) oc r0 r1
                                   (callT0Evidence call) (callT1Evidence call) 0])"
  by (auto simp: finalizeSend_def sendFinalizeResolve_def split: if_splits option.splits)

lemma finalizeSend_Inr:
  "finalizeSend w tr call = (Inr txHash, tr') \<Longrightarrow>
     \<exists>oc r0 r1. tr' = tr @ [FinalizeSent (m_marketId (callMarket call)) oc r0 r1
                                   (callT0Evidence call) (callT1Evidence call) 0]"
  by (auto simp: finalizeSend_def sendFinalizeResolve_def split: if_splits option.splits)

lemma finalizeSend_Inl:
  "finalizeSend w tr call = (Inl e, tr') \<Longrightarrow> e = TypeError \<or> (\<exists>message. e = ChainError message)"
  by (auto simp: finalizeSend_def sendFinalizeResolve_def
      split: if_splits option.splits dest: chainResult_Inl)

lemma finalizeCheck_early:
  "finalizeCheck db now mid = Inr (Inl res) \<Longrightarrow> \<exists>txHash. res = AlreadyFinalized mid txHash"
  by (auto simp: finalizeCheck_def split: option.splits if_splits)

lemma finalizeCheck_proceed:
  assumes "finalizeCheck db now mid = Inr (Inr call)"
  shows "\<exists>market r. getMarket db mid = Some market \<and> getResolution db mid = Some r
           \<and> truthyString (commitTx r) \<and> truthyDate (disputeUntil r)
           \<and> \<not> truthyString (finalizeTx r) \<and> \<not> now < the (disputeUntil r)
           \<and> callMarket call = market \<and> callOutcome call = outcome r"
  using assms
  by (auto simp: finalizeCheck_def split: option.splits if_splits)

lemma finalizeResolveJob_Inl:
  assumes "finalizeResolveJob w tr db now nowPersist mid = (Inl e, tr', db')"
  shows "\<exists>sent. tr' = tr @ sent @ [AlertJobFailure ''finalizeResolve'' mid e]"
proof (cases "finalizeCheck db now mid")
  case (Inl e')
  with assms show ?thesis by (auto simp: finalizeResolveJob_def finalizeBody_def)
next
  case (Inr c)
  show ?thesis
  proof (cases c)
    case (Inl res)
    with Inr assms show ?thesis by (simp add: finalizeResolveJob_def finalizeBody_def)
  next
    case (Inr call)
    obtain sres str where s: "finalizeSend w tr call = (sres, str)" by (cases "finalizeSend w tr call")
    from finalizeSend_trace[OF s] obtain sent where t: "str = tr @ sent" by auto
    show ?thesis
    proof (cases sres)
      case (Inl e')
      with assms \<open>finalizeCheck db now mid = Inr c\<close> Inr s t show ?thesis
        by (auto simp: finalizeResolveJob_def finalizeBody_def)
    next
      case (Inr txHash)
      with assms \<open>finalizeCheck db now mid = Inr c\<close> \<open>c = Inr call\<close> s t show ?thesis
        by (auto simp: finalizeResolveJob_def finalizeBody_def split: sum.splits)
    qed
  qed
qed

lemma finalizeResolveJob_already:
  assumes "finalizeResolveJob w tr db now nowPersist mid = (Inr (AlreadyFinalized m txHash), tr', db')"
  shows "tr' = tr \<and> db' = db"
  using assms
  by (auto simp: finalizeResolveJob_def finalizeBody_def split: sum.splits prod.splits)

lemma finalizeResolveJob_Finalized:
  assumes "finalizeResolveJob w tr db now nowPersist mid = (Inr (Finalized m txHash oc), tr', db')"
  shows "\<exists>call wr. finalizeCheck db now mid = Inr (Inr call)
           \<and> finalizeSend w tr call = (Inr txHash, tr @ [wr]) \<and> isChainWrite wr
           \<and> finalizePersist db call txHash nowPersist = Inr db'
           \<and> tr' = tr @ [wr, AlertResolutionSuccess mid (the (callOutcome call)) ''finalize'']
           \<and> m = mid \<and> oc = callOutcome call"
proof -
  from assms obtain call where c: "finalizeCheck db now mid = Inr (Inr call)"
    by (auto simp: finalizeResolveJob_def finalizeBody_def split: sum.splits prod.splits
             dest: finalizeCheck_early)
  from assms c obtain str where s: "finalizeSend w tr call = (Inr txHash, str)"
    by (auto simp: finalizeResolveJob_def finalizeBody_def split: sum.splits prod.splits)
  from finalizeSend_Inr[OF s] obtain wr where w: "str = tr @ [wr]" "isChainWrite wr"
    by auto
  from assms c s w show ?thesis
    by (auto simp: finalizeResolveJob_def finalizeBody_def split: sum.splits prod.splits)
qed

lemma finalize_passes_guard:
  assumes "getMarket db mid = Some market" and "getResolution db mid = Some r"
    and "truthyString (commitTx r)" and "disputeUntil r = Some until"
    and "\<not> truthyString (finalizeTx r)" and "until \<le> now"
  shows "fst (finalizeResolveJob w tr db now nowPersist mid) \<noteq> Inl (DisputeWindowActive until')"
proof
  assume a: "fst (finalizeResolveJob w tr db now nowPersist mid) = Inl (DisputeWindowActive until')"
  obtain res tr' db' where j: "finalizeResolveJob w tr db now nowPersist mid = (res, tr', db')"
    by (cases "finalizeResolveJob w tr db now nowPersist mid")
  with a have r: "res = Inl (DisputeWindowActive until')" by simp
  note c = finalizeCheck_committed[OF assms(1-5), of now]
  show False
  proof (cases "finalizeCheck db now mid")
    case (Inl e)
    with c assms(6) have "e = MissingSnapshotEvidence mid"
      by (auto split: option.splits)
    with Inl j r show False by (simp add: finalizeResolveJob_def finalizeBody_def)
  next
    case (Inr x)
    show False
    proof (cases x)
      case (Inl early)
      with Inr j r show False by (simp add: finalizeResolveJob_def finalizeBody_def)
    next
      case (Inr call)
      obtain sres str where s: "finalizeSend w tr call = (sres, str)"
        by (cases "finalizeSend w tr call")
      show False
      proof (cases sres)
        case (Inl e)
        with finalizeSend_Inl[of w tr call e str] s
        have "e = TypeError \<or> (\<exists>message. e = ChainError message)" by simp
        with Inl s \<open>finalizeCheck db now mid = Inr x\<close> \<open>x = Inr call\<close> j r show False
          by (auto simp: finalizeResolveJob_def finalizeBody_def)
      next
        case (Inr txHash)
        with s \<open>finalizeCheck db now mid = Inr x\<close> \<open>x = Inr call\<close> j r show False
          by (auto simp: finalizeResolveJob_def finalizeBody_def finalizePersist_def
              split: sum.splits dest: upsert_Inl)
      qed
    qed
  qed
qed

lemma sample_check:
  "finalizeCheck committedDb now 1 =
     (if now < 5000 then Inl (DisputeWindowActive 5000) else Inr (Inr sampleCall))"
proof -
  have c: "truthyString (commitTx committedResolution)"
    "disputeUntil committedResolution = Some 5000"
    "\<not> truthyString (finalizeTx committedResolution)"
    by (simp_all add: committedResolution_def)
  have f: "t0SnapshotId committedResolution = Some 1" "t1SnapshotId committedResolution = Some 2"
    "outcome committedResolution = Some 1" "t0Rank committedResolution = Some 12"
    "t1Rank committedResolution = Some 8"
    by (simp_all add: committedResolution_def)
  show ?thesis
    by (simp add: finalizeCheck_committed[OF sample_market(3) sample_resolution(3) c]
        f sample_snapshotFor sampleCall_def)
qed

lemma sample_send:
  "finalizeSend sampleWorld tr sampleCall =
     (Inr (if chainWrites tr = [] then ''0xf1'' else ''0xf2''),
      tr @ [FinalizeSent 1 1 12 8 (evidenceOf snapT0) (evidenceOf snapT1) 0])"
  by (simp add: finalizeSend_def sendFinalizeResolve_def chainResult_def sampleCall_def
      sampleWorld_def sampleMarket_def)

lemma sample_persist:
  assumes "resolutions db 1 = Some r"
  shows "finalizePersist db sampleCall txHash now =
     Inr (db\<lparr>resolutions := (resolutions db)(1 \<mapsto>
             r\<lparr>marketId := 1, finalizeTx := Some txHash, finalizedAt := Some now\<rparr>)\<rparr>)"
proof -
  have m: "m_marketId (callMarket sampleCall) = 1" by (simp add: sampleCall_def sampleMarket_def)
  have e: "mergeResolution r ((emptyResolution 1)\<lparr>finalizeTx := Some txHash, finalizedAt := Some now\<rparr>)
      = r\<lparr>marketId := 1, finalizeTx := Some txHash, finalizedAt := Some now\<rparr>"
    by (simp add: mergeResolution_def emptyResolution_def orElse_def)
  show ?thesis
    using assms e by (simp add: finalizePersist_def m upsert_text_fields emptyResolution_def)
qed

lemma sample_committed_row: "resolutions committedDb 1 = Some committedResolution"
  by (simp add: committedDb_def)

lemma sample_outcome: "callOutcome sampleCall = Some 1"
  by (simp add: sampleCall_def)

lemma sample_finalize_late:
  "finalizeResolveJob sampleWorld [] committedDb 5000 5001 1 =
     (Inr (Finalized 1 ''0xf1'' (Some 1)),
      [FinalizeSent 1 1 12 8 (evidenceOf snapT0) (evidenceOf snapT1) 0,
       AlertResolutionSuccess 1 1 ''finalize''],
      committedDb\<lparr>resolutions := (resolutions committedDb)(1 \<mapsto>
         committedResolution\<lparr>marketId := 1, finalizeTx := Some ''0xf1'',
                               finalizedAt := Some 5001\<rparr>)\<rparr>)"
  by (simp add: finalizeResolveJob_def finalizeBody_def sample_check sample_send
      sample_persist[OF sample_committed_row] sample_outcome chainWrites_def)

lemma sample_finalize_early:
  "finalizeResolveJob sampleWorld [] committedDb 4999 4999 1 =
     (Inl (DisputeWindowActive 5000),
      [AlertJobFailure ''finalizeResolve'' 1 (DisputeWindowActive 5000)], committedDb)"
  by (simp add: finalizeResolveJob_def finalizeBody_def sample_check)

text \<open>
  C5. For a resolution of a market on record that has a commit reference and a dispute
  window end and no finalize reference: before the window end the job fails with the
  dispute-window-active error, writes nothing to the chain and leaves the store as it is.
  At or after the window end it never fails with that error; with both evidence snapshots
  and the prepared values on record and a wallet configured it sends the finalize
  transaction, and when the write returns a reference the job stores that reference with
  the time of the write in the row.
\<close>

theorem finalize_window_guard:
  assumes "getMarket db mid = Some market" and "getResolution db mid = Some r"
    and "truthyString (commitTx r)" and "disputeUntil r = Some until"
    and "\<not> truthyString (finalizeTx r)"
  shows "(now < until \<longrightarrow>
            finalizeResolveJob w tr db now nowPersist mid
              = (Inl (DisputeWindowActive until),
                 tr @ [AlertJobFailure ''finalizeResolve'' mid (DisputeWindowActive until)], db)
            \<and> chainWrites (tr @ [AlertJobFailure ''finalizeResolve'' mid (DisputeWindowActive until)])
                = chainWrites tr)
       \<and> (until \<le> now \<longrightarrow>
            fst (finalizeResolveJob w tr db now nowPersist mid) \<noteq> Inl (DisputeWindowActive until))
       \<and> (until \<le> now
            \<and> snapshotFor db (t0SnapshotId r) = Some s0 \<and> snapshotFor db (t1SnapshotId r) = Some s1
            \<and> outcome r = Some oc \<and> t0Rank r = Some r0 \<and> t1Rank r = Some r1
            \<and> walletAccount w
            \<and> writeFinalizeResolve w tr mid oc r0 r1 (evidenceOf s0) (evidenceOf s1) 0 = Inr txHash
          \<longrightarrow>
            finalizeResolveJob w tr db now nowPersist mid
              = (Inr (Finalized mid txHash (Some oc)),
                 tr @ [FinalizeSent mid oc r0 r1 (evidenceOf s0) (evidenceOf s1) 0,
                       AlertResolutionSuccess mid oc ''finalize''],
                 db\<lparr>resolutions := (resolutions db)(mid \<mapsto>
                       r\<lparr>marketId := mid, finalizeTx := Some txHash,
                          finalizedAt := Some nowPersist\<rparr>)\<rparr>))"
proof (intro conjI impI)
  assume "now < until"
  then show "finalizeResolveJob w tr db now nowPersist mid
              = (Inl (DisputeWindowActive until),
                 tr @ [AlertJobFailure ''finalizeResolve'' mid (DisputeWindowActive until)], db)"
    by (simp add: finalizeResolveJob_def finalizeBody_def finalizeCheck_committed[OF assms])
next
  show "chainWrites (tr @ [AlertJobFailure ''finalizeResolve'' mid (DisputeWindowActive until)])
                = chainWrites tr"
    by (simp add: chainWrites_def)
next
  assume "until \<le> now"
  with assms show "fst (finalizeResolveJob w tr db now nowPersist mid) \<noteq> Inl (DisputeWindowActive until)"
    by (rule finalize_passes_guard)
next
  assume h: "until \<le> now
            \<and> snapshotFor db (t0SnapshotId r) = Some s0 \<and> snapshotFor db (t1SnapshotId r) = Some s1
            \<and> outcome r = Some oc \<and> t0Rank r = Some r0 \<and> t1Rank r = Some r1
            \<and> walletAccount w
            \<and> writeFinalizeResolve w tr mid oc r0 r1 (evidenceOf s0) (evidenceOf s1) 0 = Inr txHash"
  have m: "m_marketId market = mid" using assms(1) by (rule getMarket_marketId)
  let ?call = "\<lparr>callMarket = market, callOutcome = Some oc,
                    callT0Rank = Some r0, callT1Rank = Some r1,
                    callT0Evidence = evidenceOf s0, callT1Evidence = evidenceOf s1\<rparr>"
  have c: "finalizeCheck db now mid = Inr (Inr ?call)"
    using h by (simp add: finalizeCheck_committed[OF assms])
  have s: "finalizeSend w tr ?call
      = (Inr txHash, tr @ [FinalizeSent mid oc r0 r1 (evidenceOf s0) (evidenceOf s1) 0])"
    using h m by (simp add: finalizeSend_def sendFinalizeResolve_def chainResult_def)
  have e: "mergeResolution r ((emptyResolution mid)\<lparr>finalizeTx := Some txHash, finalizedAt := Some nowPersist\<rparr>)
      = r\<lparr>marketId := mid, finalizeTx := Some txHash, finalizedAt := Some nowPersist\<rparr>"
    by (simp add: mergeResolution_def emptyResolution_def orElse_def)
  have p: "finalizePersist db ?call txHash nowPersist
      = Inr (db\<lparr>resolutions := (resolutions db)(mid \<mapsto>
                       r\<lparr>marketId := mid, finalizeTx := Some txHash,
                          finalizedAt := Some nowPersist\<rparr>)\<rparr>)"
    using assms(2) m e
    by (simp add: finalizePersist_def upsert_text_fields emptyResolution_def getResolution_def)
  show "finalizeResolveJob w tr db now nowPersist mid
              = (Inr (Finalized mid txHash (Some oc)),
                 tr @ [FinalizeSent mid oc r0 r1 (evidenceOf s0) (evidenceOf s1) 0,
                       AlertResolutionSuccess mid oc ''finalize''],
                 db\<lparr>resolutions := (resolutions db)(mid \<mapsto>
                       r\<lparr>marketId := mid, finalizeTx := Some txHash,
                          finalizedAt := Some nowPersist\<rparr>)\<rparr>)"
    using h by (simp add: finalizeResolveJob_def finalizeBody_def c s p)
qed

text \<open>
  The theorem at the scenario, one millisecond before the window end and at the window end.
\<close>

theorem finalize_window_guard_witness:
  "getMarket committedDb 1 = Some sampleMarket
   \<and> getResolution committedDb 1 = Some committedResolution
   \<and> (4999::int) < 5000
   \<and> finalizeResolveJob sampleWorld [] committedDb 4999 4999 1
       = (Inl (DisputeWindowActive 5000),
          [AlertJobFailure ''finalizeResolve'' 1 (DisputeWindowActive 5000)], committedDb)
   \<and> (5000::int) \<le> 5000
   \<and> fst (finalizeResolveJob sampleWorld [] committedDb 5000 5001 1)
       = Inr (Finalized 1 ''0xf1'' (Some 1))
   \<and> fst (snd (finalizeResolveJob sampleWorld [] committedDb 5000 5001 1))
       = [FinalizeSent 1 1 12 8 (evidenceOf snapT0) (evidenceOf snapT1) 0,
          AlertResolutionSuccess 1 1 ''finalize'']
   \<and> map_option finalizeTx (getResolution (snd (snd (finalizeResolveJob sampleWorld [] committedDb 5000 5001 1))) 1)
       = Some (Some ''0xf1'')
   \<and> map_option finalizedAt (getResolution (snd (snd (finalizeResolveJob sampleWorld [] committedDb 5000 5001 1))) 1)
       = Some (Some 5001)"
proof -
  have c: "truthyString (commitTx committedResolution)"
    "disputeUntil committedResolution = Some 5000"
    "\<not> truthyString (finalizeTx committedResolution)"
    by (simp_all add: committedResolution_def)
  have f: "t0SnapshotId committedResolution = Some 1" "t1SnapshotId committedResolution = Some 2"
    "outcome committedResolution = Some 1" "t0Rank committedResolution = Some 12"
    "t1Rank committedResolution = Some 8"
    by (simp_all add: committedResolution_def)
  have w: "walletAccount sampleWorld"
    "writeFinalizeResolve sampleWorld [] 1 1 12 8 (evidenceOf snapT0) (evidenceOf snapT1) 0 = Inr ''0xf1''"
    by (simp_all add: sampleWorld_def chainWrites_def)
  note g = finalize_window_guard[OF sample_market(3) sample_resolution(3) c]
  from g[of 4999 sampleWorld "[]" 4999]
  have early: "finalizeResolveJob sampleWorld [] committedDb 4999 4999 1
       = (Inl (DisputeWindowActive 5000),
          [AlertJobFailure ''finalizeResolve'' 1 (DisputeWindowActive 5000)], committedDb)"
    by simp
  from g[of 5000 sampleWorld "[]" 5001 snapT0 snapT1 1 12 8 "''0xf1''"] f w sample_snapshotFor
  have late: "finalizeResolveJob sampleWorld [] committedDb 5000 5001 1
       = (Inr (Finalized 1 ''0xf1'' (Some 1)),
          [FinalizeSent 1 1 12 8 (evidenceOf snapT0) (evidenceOf snapT1) 0,
           AlertResolutionSuccess 1 1 ''finalize''],
          committedDb\<lparr>resolutions := (resolutions committedDb)(1 \<mapsto>
             committedResolution\<lparr>marketId := 1, finalizeTx := Some ''0xf1'',
                                   finalizedAt := Some 5001\<rparr>)\<rparr>)"
    by simp
  show ?thesis
    by (simp add: early late sample_market sample_resolution getResolution_def sample_committed_row)
qed

lemma commitResolveJob_Committed:
  assumes "commitResolveJob w tr db nowMs nowDate mid = (Inr (Committed m txHash until oc), tr', db')"
  shows "\<exists>before. tr' = before @ [AlertResolutionSuccess mid oc ''commit'']"
proof -
  from assms have "commitBody w tr db nowMs nowDate mid = (Inr (Committed m txHash until oc), tr', db')"
    by (auto simp: commitResolveJob_def split: prod.splits sum.splits)
  then show ?thesis
    by (auto simp: commitBody_def Let_def split: option.splits if_splits sum.splits prod.splits)
qed

lemma commitResolveJob_Inl:
  assumes "commitResolveJob w tr db nowMs nowDate mid = (Inl e, tr', db')"
  shows "\<exists>before. tr' = before @ [AlertJobFailure ''commitResolve'' mid e]"
  using assms by (auto simp: commitResolveJob_def split: prod.splits sum.splits)

lemma prepareResolveJob_Inl:
  assumes "prepareResolveJob w tr db job = (Inl e, tr', db')"
  shows "tr' = tr @ [AlertJobFailure ''prepareResolve'' (jobMarketId job) e]"
  using assms by (auto simp: prepareResolveJob_def split: prod.splits sum.splits)

text \<open>
  C7. The \<open>catch\<close> block of \<open>finalizeResolveJob\<close> alerts on every error: a run that
  fails ends its trace with the failure alert for that error. In particular a run stopped
  by the dispute window sends exactly that alert. A run that finalizes ends with the
  success alert, and only the early return for a resolution that is already finalized
  sends nothing. The other two jobs alert on every failure in the same way, and the commit
  job alerts on success as well.
\<close>

theorem finalize_failure_alerts:
  "(finalizeResolveJob w tr db now nowPersist mid = (Inl e, tr', db')
      \<longrightarrow> (\<exists>sent. tr' = tr @ sent @ [AlertJobFailure ''finalizeResolve'' mid e]))
   \<and> (getMarket db mid = Some market \<and> getResolution db mid = Some r
        \<and> truthyString (commitTx r) \<and> disputeUntil r = Some until
        \<and> \<not> truthyString (finalizeTx r) \<and> now < until
      \<longrightarrow> fst (snd (finalizeResolveJob w tr db now nowPersist mid))
            = tr @ [AlertJobFailure ''finalizeResolve'' mid (DisputeWindowActive until)])
   \<and> (finalizeResolveJob w tr db now nowPersist mid = (Inr (Finalized m txHash oc), tr', db')
      \<longrightarrow> (\<exists>sent. tr' = tr @ [sent, AlertResolutionSuccess mid (the oc) ''finalize'']))
   \<and> (finalizeResolveJob w tr db now nowPersist mid = (Inr (AlreadyFinalized m txHash), tr', db')
      \<longrightarrow> tr' = tr)
   \<and> (commitResolveJob w tr db nowMs nowDate mid = (Inl e, tr', db')
      \<longrightarrow> (\<exists>before. tr' = before @ [AlertJobFailure ''commitResolve'' mid e]))
   \<and> (commitResolveJob w tr db nowMs nowDate mid = (Inr (Committed m txHash windowEnd stored), tr', db')
      \<longrightarrow> (\<exists>before. tr' = before @ [AlertResolutionSuccess mid stored ''commit'']))
   \<and> (prepareResolveJob w tr db job = (Inl e, tr', db')
      \<longrightarrow> tr' = tr @ [AlertJobFailure ''prepareResolve'' (jobMarketId job) e])"
proof (intro conjI impI)
  assume "finalizeResolveJob w tr db now nowPersist mid = (Inl e, tr', db')"
  then show "\<exists>sent. tr' = tr @ sent @ [AlertJobFailure ''finalizeResolve'' mid e]"
    by (rule finalizeResolveJob_Inl)
next
  assume h: "getMarket db mid = Some market \<and> getResolution db mid = Some r
        \<and> truthyString (commitTx r) \<and> disputeUntil r = Some until
        \<and> \<not> truthyString (finalizeTx r) \<and> now < until"
  then have "finalizeCheck db now mid = Inl (DisputeWindowActive until)"
    using finalizeCheck_committed[of db mid market r until now] by simp
  then show "fst (snd (finalizeResolveJob w tr db now nowPersist mid))
            = tr @ [AlertJobFailure ''finalizeResolve'' mid (DisputeWindowActive until)]"
    by (simp add: finalizeResolveJob_def finalizeBody_def)
next
  assume "finalizeResolveJob w tr db now nowPersist mid = (Inr (Finalized m txHash oc), tr', db')"
  from finalizeResolveJob_Finalized[OF this]
  show "\<exists>sent. tr' = tr @ [sent, AlertResolutionSuccess mid (the oc) ''finalize'']"
    by auto
next
  assume "finalizeResolveJob w tr db now nowPersist mid = (Inr (AlreadyFinalized m txHash), tr', db')"
  then show "tr' = tr" using finalizeResolveJob_already by blast
next
  assume "commitResolveJob w tr db nowMs nowDate mid = (Inl e, tr', db')"
  then show "\<exists>before. tr' = before @ [AlertJobFailure ''commitResolve'' mid e]"
    by (rule commitResolveJob_Inl)
next
  assume "commitResolveJob w tr db nowMs nowDate mid = (Inr (Committed m txHash windowEnd stored), tr', db')"
  then show "\<exists>before. tr' = before @ [AlertResolutionSuccess mid stored ''commit'']"
    by (rule commitResolveJob_Committed)
next
  assume "prepareResolveJob w tr db job = (Inl e, tr', db')"
  then show "tr' = tr @ [AlertJobFailure ''prepareResolve'' (jobMarketId job) e]"
    by (rule prepareResolveJob_Inl)
qed

text \<open>The theorem at the scenario, one millisecond before the window end.\<close>

theorem finalize_failure_alerts_witness:
  "getMarket committedDb 1 = Some sampleMarket
   \<and> getResolution committedDb 1 = Some committedResolution
   \<and> truthyString (commitTx committedResolution)
   \<and> disputeUntil committedResolution = Some 5000
   \<and> \<not> truthyString (finalizeTx committedResolution)
   \<and> (4999::int) < 5000
   \<and> fst (snd (finalizeResolveJob sampleWorld [] committedDb 4999 4999 1))
       = [AlertJobFailure ''finalizeResolve'' 1 (DisputeWindowActive 5000)]"
proof -
  have c: "truthyString (commitTx committedResolution)"
    "disputeUntil committedResolution = Some 5000"
    "\<not> truthyString (finalizeTx committedResolution)"
    by (simp_all add: committedResolution_def)
  from finalize_failure_alerts[of sampleWorld "[]" committedDb 4999 4999 1 _ _ _ sampleMarket
      committedResolution 5000]
    sample_market(3) sample_resolution(3) c
  show ?thesis by simp
qed

text \<open>
  A finalize run that fails only because the window is still open, and the alert it sends.
\<close>

theorem finalize_window_alert_counterexample:
  "fst (finalizeResolveJob sampleWorld [] committedDb 4999 4999 1) = Inl (DisputeWindowActive 5000)
   \<and> fst (snd (finalizeResolveJob sampleWorld [] committedDb 4999 4999 1))
       = [AlertJobFailure ''finalizeResolve'' 1 (DisputeWindowActive 5000)]"
  by (simp add: sample_finalize_early)

section \<open>Properties of two finalize runs\<close>

text \<open>Three turns of one worker are one run of the job.\<close>

lemma job_as_steps:
  "workerStep w mid nowPersist (workerStep w mid now2 (workerStep w mid now (Waiting, tr, db)))
     = (case finalizeResolveJob w tr db now nowPersist mid of
          (res, tr', db') \<Rightarrow> (Stopped res, tr', db'))"
proof (cases "finalizeCheck db now mid")
  case (Inl e)
  then show ?thesis by (simp add: workerStep_def finalizeResolveJob_def finalizeBody_def)
next
  case (Inr c)
  show ?thesis
  proof (cases c)
    case (Inl res)
    with Inr show ?thesis by (simp add: workerStep_def finalizeResolveJob_def finalizeBody_def)
  next
    case (Inr call)
    obtain sres str where s: "finalizeSend w tr call = (sres, str)" by (cases "finalizeSend w tr call")
    show ?thesis
    proof (cases sres)
      case (Inl e)
      with \<open>finalizeCheck db now mid = Inr c\<close> Inr s show ?thesis
        by (simp add: workerStep_def finalizeResolveJob_def finalizeBody_def)
    next
      case (Inr txHash)
      from finalizeSend_Inr[OF s[unfolded Inr]] obtain wr where "str = tr @ [wr]" by auto
      with \<open>finalizeCheck db now mid = Inr c\<close> \<open>c = Inr call\<close> s Inr show ?thesis
        by (cases "finalizePersist db call txHash nowPersist")
           (simp_all add: workerStep_def finalizeResolveJob_def finalizeBody_def)
    qed
  qed
qed

lemma sample_race:
  "runSchedule sampleWorld 1 raceSchedule (Waiting, Waiting, [], committedDb) =
     (Stopped (Inr (Finalized 1 ''0xf1'' (Some 1))),
      Stopped (Inr (Finalized 1 ''0xf2'' (Some 1))),
      [FinalizeSent 1 1 12 8 (evidenceOf snapT0) (evidenceOf snapT1) 0,
       FinalizeSent 1 1 12 8 (evidenceOf snapT0) (evidenceOf snapT1) 0,
       AlertResolutionSuccess 1 1 ''finalize'', AlertResolutionSuccess 1 1 ''finalize''],
      committedDb\<lparr>resolutions := (resolutions committedDb)(1 \<mapsto>
         committedResolution\<lparr>marketId := 1, finalizeTx := Some ''0xf2'',
                               finalizedAt := Some 5002\<rparr>)\<rparr>)"
proof -
  let ?sent = "FinalizeSent 1 1 12 8 (evidenceOf snapT0) (evidenceOf snapT1) 0"
  let ?db1 = "committedDb\<lparr>resolutions := (resolutions committedDb)(1 \<mapsto>
         committedResolution\<lparr>marketId := 1, finalizeTx := Some ''0xf1'',
                               finalizedAt := Some 5002\<rparr>)\<rparr>"
  have a1: "workerStep sampleWorld 1 5000 (Waiting, [], committedDb) = (Checked sampleCall, [], committedDb)"
    by (simp add: workerStep_def sample_check)
  have a2: "workerStep sampleWorld 1 5001 (Checked sampleCall, [], committedDb)
      = (Sent sampleCall ''0xf1'', [?sent], committedDb)"
    by (simp add: workerStep_def sample_send chainWrites_def)
  have b2: "workerStep sampleWorld 1 5001 (Checked sampleCall, [?sent], committedDb)
      = (Sent sampleCall ''0xf2'', [?sent, ?sent], committedDb)"
    by (simp add: workerStep_def sample_send chainWrites_def)
  have a3: "workerStep sampleWorld 1 5002 (Sent sampleCall ''0xf1'', [?sent, ?sent], committedDb)
      = (Stopped (Inr (Finalized 1 ''0xf1'' (Some 1))),
         [?sent, ?sent, AlertResolutionSuccess 1 1 ''finalize''], ?db1)"
    by (simp add: workerStep_def sample_persist[OF sample_committed_row] sample_outcome)
  have r1: "resolutions ?db1 1 = Some (committedResolution\<lparr>marketId := 1, finalizeTx := Some ''0xf1'',
                               finalizedAt := Some 5002\<rparr>)"
    by simp
  have b3: "workerStep sampleWorld 1 5002
        (Sent sampleCall ''0xf2'', [?sent, ?sent, AlertResolutionSuccess 1 1 ''finalize''], ?db1)
      = (Stopped (Inr (Finalized 1 ''0xf2'' (Some 1))),
         [?sent, ?sent, AlertResolutionSuccess 1 1 ''finalize'', AlertResolutionSuccess 1 1 ''finalize''],
         committedDb\<lparr>resolutions := (resolutions committedDb)(1 \<mapsto>
           committedResolution\<lparr>marketId := 1, finalizeTx := Some ''0xf2'',
                               finalizedAt := Some 5002\<rparr>)\<rparr>)"
    by (simp add: workerStep_def sample_persist[OF r1] sample_outcome)
  show ?thesis
    by (simp add: raceSchedule_def a1 a2 b2 a3 b3)
qed

text \<open>
  C6. Of two finalize runs that follow one another, the first having stored a non-empty
  reference, the second returns that reference as already finalized, in any world and at
  any time, sends nothing and leaves the store as it is; the first run wrote to the chain
  exactly once. The job has no conditional write: this holds for runs that do not overlap.
\<close>

theorem finalize_once_in_sequence:
  assumes "finalizeResolveJob w tr db now nowPersist mid = (Inr (Finalized m txHash oc), tr', db')"
    and "txHash \<noteq> []"
  shows "finalizeResolveJob w2 tr2 db' now2 nowPersist2 mid
           = (Inr (AlreadyFinalized mid txHash), tr2, db')
       \<and> (\<exists>wr. chainWrites tr' = chainWrites tr @ [wr])"
proof -
  from finalizeResolveJob_Finalized[OF assms(1)] obtain call wr where
    c: "finalizeCheck db now mid = Inr (Inr call)"
    and p: "finalizePersist db call txHash nowPersist = Inr db'"
    and t: "tr' = tr @ [wr, AlertResolutionSuccess mid (the (callOutcome call)) ''finalize'']"
    and iw: "isChainWrite wr"
    by blast
  from finalizeCheck_proceed[OF c] obtain market r where
    m: "getMarket db mid = Some market" and r: "getResolution db mid = Some r"
    and g: "truthyString (commitTx r)" "truthyDate (disputeUntil r)"
    and cm: "callMarket call = market"
    by blast
  have mm: "m_marketId market = mid" using m by (rule getMarket_marketId)
  from upsert_Inr[OF p[unfolded finalizePersist_def]] cm mm r
  have d: "db' = db\<lparr>resolutions := (resolutions db)(mid \<mapsto>
            mergeResolution r ((emptyResolution mid)\<lparr>finalizeTx := Some txHash, finalizedAt := Some nowPersist\<rparr>))\<rparr>"
    by (simp add: emptyResolution_def getResolution_def)
  have m': "getMarket db' mid = Some market" using m d by (simp add: getMarket_def)
  have r': "getResolution db' mid = Some (mergeResolution r
      ((emptyResolution mid)\<lparr>finalizeTx := Some txHash, finalizedAt := Some nowPersist\<rparr>))"
    using d by (simp add: getResolution_def)
  have "finalizeCheck db' now2 mid = Inr (Inl (AlreadyFinalized mid txHash))"
    using m' r' g assms(2)
    by (simp add: finalizeCheck_def mergeResolution_def emptyResolution_def orElse_def)
  then have "finalizeResolveJob w2 tr2 db' now2 nowPersist2 mid
           = (Inr (AlreadyFinalized mid txHash), tr2, db')"
    by (simp add: finalizeResolveJob_def finalizeBody_def)
  moreover have "chainWrites tr' = chainWrites tr @ [wr]"
    using t iw by (simp add: chainWrites_def)
  ultimately show ?thesis by blast
qed

text \<open>The theorem at the scenario, the second run starting after the first has ended.\<close>

theorem finalize_once_in_sequence_witness:
  "fst (finalizeResolveJob sampleWorld [] committedDb 5000 5001 1)
     = Inr (Finalized 1 ''0xf1'' (Some 1))
   \<and> ''0xf1'' \<noteq> ''''
   \<and> (case finalizeResolveJob sampleWorld [] committedDb 5000 5001 1 of
        (res, tr', db') \<Rightarrow>
          finalizeResolveJob sampleWorld tr' db' 5002 5003 1
            = (Inr (AlreadyFinalized 1 ''0xf1''), tr', db')
          \<and> length (chainWrites tr') = 1)"
proof -
  obtain tr' db' where r: "finalizeResolveJob sampleWorld [] committedDb 5000 5001 1
      = (Inr (Finalized 1 ''0xf1'' (Some 1)), tr', db')"
    using sample_finalize_late by blast
  have n: "''0xf1'' \<noteq> ''''" by simp
  from finalize_once_in_sequence[OF r n, of sampleWorld tr' 5002 5003]
  have "finalizeResolveJob sampleWorld tr' db' 5002 5003 1
            = (Inr (AlreadyFinalized 1 ''0xf1''), tr', db')"
    and "length (chainWrites tr') = 1"
    by (auto simp: chainWrites_def)
  with r show ?thesis by simp
qed

text \<open>
  Two workers at the window end, each reading the row before the other has written it:
  both send the finalize transaction, both report success, and the reference of the second
  write replaces that of the first in the row.
\<close>

theorem finalize_race_counterexample:
  "(case runSchedule sampleWorld 1 raceSchedule (Waiting, Waiting, [], committedDb) of
      (a, b, tr, db) \<Rightarrow>
        a = Stopped (Inr (Finalized 1 ''0xf1'' (Some 1)))
        \<and> b = Stopped (Inr (Finalized 1 ''0xf2'' (Some 1)))
        \<and> length (chainWrites tr) = 2
        \<and> map_option finalizeTx (getResolution db 1) = Some (Some ''0xf2''))"
  by (simp add: sample_race chainWrites_def getResolution_def)

end
